theory Spec2Isabelle
  imports Complex_Main "HOL-Library.AList"
begin

section \<open>Workflow planning and orchestration core of AfundiOS\<close>

text \<open>
  A shallow embedding of \<^verbatim>\<open>backend/core/agents/planner.py\<close> and
  \<^verbatim>\<open>backend/core/agents/orchestrator.py\<close>.

  Conventions of the embedding:
  \<^item> Python dictionaries are association lists in insertion order; \<^verbatim>\<open>d[k] = v\<close> is
    \<^const>\<open>AList.update\<close> (replace in place, or append), \<^verbatim>\<open>d.get(k)\<close> is \<^const>\<open>map_of\<close>.
  \<^item> Workflow objects are mutable and shared between the planner's registry and the
    callers that hold a reference, so they live in an explicit store \<open>heap\<close>; a reference
    is an address. Task objects are owned by exactly one workflow and are stored by value
    inside it.
  \<^item> \<^verbatim>\<open>datetime.now()\<close> reads a clock; the clock is an arbitrary sequence of readings,
    and the state counts how many have been consumed.
  \<^item> A Python exception is a value of type \<open>exn\<close>; a function that can raise returns
    \<open>exn + 'a\<close> or an \<open>exn option\<close> next to the state it leaves behind.
  \<^item> A leading underscore of a Python name is dropped (\<^verbatim>\<open>_execute_task\<close> is
    \<open>execute_task\<close>); record fields that would clash across records carry the record's
    prefix (\<open>task_\<close>, \<open>wf_\<close>, \<open>er_\<close>).
  \<^item> Log output is not modelled.
\<close>

subsection \<open>Python values\<close>

datatype pyval =
    PNone
  | PBool bool
  | PInt int
  | PStr string
  | PList "pyval list"
  | PDict "(string \<times> pyval) list"

type_synonym pydict = "(string \<times> pyval) list"

text \<open>Truth value of a Python object, as tested by \<^verbatim>\<open>if x\<close> and \<^verbatim>\<open>and\<close>.\<close>

fun truthy :: "pyval \<Rightarrow> bool" where
  "truthy PNone = False"
| "truthy (PBool b) = b"
| "truthy (PInt i) = (i \<noteq> 0)"
| "truthy (PStr s) = (s \<noteq> [])"
| "truthy (PList xs) = (xs \<noteq> [])"
| "truthy (PDict d) = (d \<noteq> [])"

datatype exn =
    KeyError string
  | RuntimeError string
  | TypeError string
  | Exception string

text \<open>
  \<^verbatim>\<open>repr\<close> of a string, on ASCII text: the string is put between single quotes, or
  between double quotes when it contains a single quote and no double quote; the
  chosen quote and the backslash are escaped with a backslash; tab, newline and carriage
  return are written \<^verbatim>\<open>\t\<close>, \<^verbatim>\<open>\n\<close>, \<^verbatim>\<open>\r\<close>; any other character below 32, and 127, is
  written \<^verbatim>\<open>\xhh\<close> with two lower-case hexadecimal digits. Characters from 128 on are
  kept; text outside ASCII is not modelled.
\<close>

definition hex2 :: "nat \<Rightarrow> string" where
  "hex2 n = [''0123456789abcdef'' ! ((n div 16) mod 16), ''0123456789abcdef'' ! (n mod 16)]"

definition repr_char :: "char \<Rightarrow> char \<Rightarrow> string" where
  "repr_char quote c =
     (if c = quote \<or> c = CHR 0x5C then [CHR 0x5C, c]
      else if c = CHR 0x09 then [CHR 0x5C, CHR ''t'']
      else if c = CHR 0x0A then [CHR 0x5C, CHR ''n'']
      else if c = CHR 0x0D then [CHR 0x5C, CHR ''r'']
      else if (of_char c :: nat) < 32 \<or> (of_char c :: nat) = 127
        then [CHR 0x5C, CHR ''x''] @ hex2 (of_char c)
      else [c])"

definition py_repr :: "string \<Rightarrow> string" where
  "py_repr s =
     (let quote = (if CHR 0x27 \<in> set s \<and> CHR 0x22 \<notin> set s then CHR 0x22 else CHR 0x27)
      in [quote] @ concat (map (repr_char quote) s) @ [quote])"

text \<open>\<^verbatim>\<open>str(e)\<close>. A \<^verbatim>\<open>KeyError\<close> prints the \<^verbatim>\<open>repr\<close> of its key; the other exceptions print
  their message.\<close>

fun exn_str :: "exn \<Rightarrow> string" where
  "exn_str (KeyError k) = py_repr k"
| "exn_str (RuntimeError m) = m"
| "exn_str (TypeError m) = m"
| "exn_str (Exception m) = m"

text \<open>\<^verbatim>\<open>len(x)\<close>: defined on strings, lists and dictionaries, a \<^verbatim>\<open>TypeError\<close> otherwise.\<close>

fun py_len :: "pyval \<Rightarrow> exn + nat" where
  "py_len (PStr s) = Inr (length s)"
| "py_len (PList xs) = Inr (length xs)"
| "py_len (PDict d) = Inr (length d)"
| "py_len PNone = Inl (TypeError ''object of type 'NoneType' has no len()'')"
| "py_len (PBool b) = Inl (TypeError ''object of type 'bool' has no len()'')"
| "py_len (PInt i) = Inl (TypeError ''object of type 'int' has no len()'')"

subsection \<open>Floating point\<close>

text \<open>
  A Python \<^verbatim>\<open>float\<close> is a binary64 number: an integer significand times a power of
  two. The operations below give the significand of a non-zero result 53 bits (the
  nearest such number, ties to the even significand), as the true division of two
  integers and the multiplication of two floats do. Overflow and subnormal numbers are
  not modelled; the magnitudes of this core (a ratio of task counts, a number of seconds
  between two \<^verbatim>\<open>datetime\<close> values) are far from both.
\<close>

record pyfloat =
  significand :: int
  exponent :: int

datatype pynum =
    PyInt int
  | PyFloat pyfloat

text \<open>\<^verbatim>\<open>n.bit_length()\<close> of a non-negative integer.\<close>

function bit_length :: "int \<Rightarrow> nat" where
  "bit_length n = (if n \<le> 0 then 0 else Suc (bit_length (n div 2)))"
  by pat_completeness auto

termination
  by (relation "measure nat") auto

declare bit_length.simps [simp del]

text \<open>The float nearest to \<open>num / den\<close>, for positive \<open>num\<close> and \<open>den\<close>: with \<open>k\<close> the integer
  such that \<open>2\<^sup>k \<le> num / den < 2\<^sup>k\<^sup>+\<^sup>1\<close>, the quotient is scaled by \<open>2\<^sup>5\<^sup>2\<^sup>-\<^sup>k\<close> and rounded to an
  integer.\<close>

definition round_ratio :: "int \<Rightarrow> int \<Rightarrow> pyfloat" where
  "round_ratio num den =
     (let t = int (bit_length num) - int (bit_length den);
          k = (if (if t \<ge> 0 then num \<ge> den * 2 ^ nat t else num * 2 ^ nat (- t) \<ge> den)
               then t else t - 1);
          e = k - 52;
          n = (if e \<ge> 0 then num else num * 2 ^ nat (- e));
          d = (if e \<ge> 0 then den * 2 ^ nat e else den);
          fl = n div d;
          r = n mod d;
          m = (if 2 * r < d then fl else if 2 * r > d then fl + 1
               else if even fl then fl else fl + 1)
      in \<lparr>significand = m, exponent = e\<rparr>)"

definition float_neg :: "pyfloat \<Rightarrow> pyfloat" where
  "float_neg x = x\<lparr>significand := - significand x\<rparr>"

text \<open>\<^verbatim>\<open>a / b\<close> of two integers, \<open>b\<close> not zero.\<close>

definition int_truediv :: "int \<Rightarrow> int \<Rightarrow> pyfloat" where
  "int_truediv a b =
     (if a = 0 then \<lparr>significand = 0, exponent = 0\<rparr>
      else if (a < 0) = (b < 0) then round_ratio \<bar>a\<bar> \<bar>b\<bar>
      else float_neg (round_ratio \<bar>a\<bar> \<bar>b\<bar>))"

text \<open>\<^verbatim>\<open>x * c\<close> of a float and an integer that is itself a float (below \<open>2\<^sup>5\<^sup>3\<close>).\<close>

definition float_mul_int :: "pyfloat \<Rightarrow> int \<Rightarrow> pyfloat" where
  "float_mul_int x c =
     (let p = significand x * c
      in if p = 0 then \<lparr>significand = 0, exponent = 0\<rparr>
         else (let y = (if exponent x \<ge> 0 then round_ratio (\<bar>p\<bar> * 2 ^ nat (exponent x)) 1
                        else round_ratio \<bar>p\<bar> (2 ^ nat (- exponent x)))
               in if p < 0 then float_neg y else y))"

text \<open>\<^verbatim>\<open>int(x)\<close> of a float: rounding towards zero.\<close>

definition py_int :: "pyfloat \<Rightarrow> int" where
  "py_int x =
     (if exponent x \<ge> 0 then significand x * 2 ^ nat (exponent x)
      else sgn (significand x) * (\<bar>significand x\<bar> div 2 ^ nat (- exponent x)))"

subsection \<open>Strings\<close>

text \<open>Decimal rendering of a natural number, as an f-string prints an \<^verbatim>\<open>int\<close>.\<close>

fun str_nat :: "nat \<Rightarrow> string" where
  "str_nat n =
     (if n < 10 then [''0123456789'' ! n]
      else str_nat (n div 10) @ [''0123456789'' ! (n mod 10)])"

declare str_nat.simps [simp del]

text \<open>\<^verbatim>\<open>str.lower()\<close> on ASCII text: the 26 capital letters are mapped, every other
  character is kept.\<close>

definition lower_char :: "char \<Rightarrow> char" where
  "lower_char c =
     (case map_of (zip ''ABCDEFGHIJKLMNOPQRSTUVWXYZ'' ''abcdefghijklmnopqrstuvwxyz'') c of
        None \<Rightarrow> c
      | Some d \<Rightarrow> d)"

definition py_lower :: "string \<Rightarrow> string" where
  "py_lower s = map lower_char s"

fun starts_with :: "string \<Rightarrow> string \<Rightarrow> bool" where
  "starts_with s [] = True"
| "starts_with [] (c # w) = False"
| "starts_with (d # s) (c # w) = (d = c \<and> starts_with s w)"

text \<open>\<^verbatim>\<open>w in s\<close> on strings: \<open>w\<close> occurs in \<open>s\<close> as a contiguous substring.\<close>

fun py_in :: "string \<Rightarrow> string \<Rightarrow> bool" where
  "py_in w [] = (w = [])"
| "py_in w (c # s) = (starts_with (c # s) w \<or> py_in w s)"

text \<open>\<^verbatim>\<open>any(word in goal_lower for word in words)\<close>.\<close>

definition any_word_in :: "string list \<Rightarrow> string \<Rightarrow> bool" where
  "any_word_in words goal_lower = list_ex (\<lambda>word. py_in word goal_lower) words"

subsection \<open>Data model (planner.py)\<close>

datatype TaskStatus = PENDING | READY | IN_PROGRESS | COMPLETED | FAILED | BLOCKED

datatype TaskPriority = LOW | MEDIUM | HIGH | CRITICAL

text \<open>A clock reading: microseconds since the epoch, and its rendering by
  \<^verbatim>\<open>strftime("%Y%m%d%H%M%S")\<close>. The calendar arithmetic that links the two is not
  modelled; the two fields are independent.\<close>

record datetime =
  micros :: int
  stamp :: string

record Task =
  task_id :: string
  task_name :: string
  task_description :: string
  objective :: string
  action :: string
  parameters :: pydict
  priority :: TaskPriority
  dependencies :: "string list"
  task_status :: TaskStatus
  estimated_duration_seconds :: int
  task_created_at :: datetime
  task_started_at :: "datetime option"
  task_completed_at :: "datetime option"
  task_result :: "pydict option"
  task_error :: "string option"

record Workflow =
  wf_id :: string
  goal :: string
  wf_description :: string
  tasks :: "(string \<times> Task) list"
  task_order :: "string list"
  wf_status :: string
  wf_created_at :: datetime
  wf_started_at :: "datetime option"
  wf_completed_at :: "datetime option"
  estimated_total_duration :: int
  actual_duration :: "int option"
  metadata :: pydict

subsection \<open>Data model (orchestrator.py)\<close>

datatype WorkflowMode = SEQUENTIAL | PARALLEL | HYBRID

text \<open>\<^verbatim>\<open>auto_approve_quality_score\<close> is a float that no function of the core reads; it is
  left out.\<close>

record AgentExecutionConfig =
  mode :: WorkflowMode
  max_retries :: int
  timeout_seconds :: int
  enable_criticism :: bool
  enable_summarization :: bool
  log_execution :: bool

text \<open>What the orchestrator keeps of the collaborators' answers. The critic's and the
  summarizer's own scores are floats and are not part of this core.\<close>

record ReviewResult =
  rv_content_id :: string
  is_approved :: bool
  review_summary :: string

record SummaryResult =
  sm_content_id :: string
  summary_text :: string

record ExecutionResult =
  workflow_id :: string
  success :: bool
  er_status :: string
  er_started_at :: datetime
  er_completed_at :: "datetime option"
  duration_seconds :: int
  tasks_completed :: nat
  tasks_failed :: nat
  tasks_total :: nat
  results :: "(string \<times> pydict) list"
  errors :: "string list"
  reviews :: "(string \<times> ReviewResult) list"
  summaries :: "(string \<times> SummaryResult) list"

subsection \<open>State\<close>

type_synonym addr = nat

text \<open>
  The mutable state of one \<^verbatim>\<open>AgentOrchestrator\<close> together with the \<^verbatim>\<open>PlannerAgent\<close> it
  owns:
  \<^item> \<open>workflows\<close> is \<^verbatim>\<open>planner.workflows\<close>, from workflow ID to the Workflow object;
  \<^item> \<open>task_counter\<close> is \<^verbatim>\<open>planner._task_counter\<close>;
  \<^item> \<open>executions\<close> is \<^verbatim>\<open>orchestrator.executions\<close>;
  \<^item> \<open>heap\<close> holds the Workflow objects, \<open>next_addr\<close> is the next free address;
  \<^item> \<open>clock\<close> is the sequence of readings \<^verbatim>\<open>datetime.now()\<close> returns, \<open>clock_reads\<close> the
    number read so far;
  \<^item> \<open>critic_calls\<close> and \<open>summarizer_calls\<close> count the calls made to the collaborators;
  \<^item> \<open>dispatch_log\<close> is a ghost field: the IDs of the tasks handed to
    \<^verbatim>\<open>_execute_task\<close>, in order.
\<close>

record core_state =
  workflows :: "(string \<times> addr) list"
  task_counter :: nat
  executions :: "(string \<times> ExecutionResult) list"
  heap :: "addr \<Rightarrow> Workflow"
  next_addr :: addr
  clock :: "nat \<Rightarrow> datetime"
  clock_reads :: nat
  critic_calls :: nat
  summarizer_calls :: nat
  dispatch_log :: "string list"

text \<open>
  The parts of an \<^verbatim>\<open>AgentOrchestrator\<close> that never change after construction: the
  configuration, the action-handler registry, and the two collaborators. A handler maps
  the task's parameters to a result dictionary or raises. The collaborators are opaque:
  their answer may depend on how many calls they have served.
\<close>

record AgentOrchestrator =
  config :: AgentExecutionConfig
  action_handlers :: "(string \<times> (pydict \<Rightarrow> exn + pydict)) list"
  critic_review :: "nat \<Rightarrow> pyval \<Rightarrow> string \<Rightarrow> pydict \<Rightarrow> exn + ReviewResult"
  summarizer_summarize :: "nat \<Rightarrow> pyval \<Rightarrow> exn + SummaryResult"

definition datetime_now :: "core_state \<Rightarrow> datetime \<times> core_state" where
  "datetime_now s = (clock s (clock_reads s), s\<lparr>clock_reads := Suc (clock_reads s)\<rparr>)"

subsection \<open>Workflow methods\<close>

definition get_task :: "Workflow \<Rightarrow> string \<Rightarrow> Task option" where
  "get_task w tid = map_of (tasks w) tid"

text \<open>
  The generator inside \<^verbatim>\<open>all(...)\<close> of \<^verbatim>\<open>get_ready_tasks\<close>: the dependencies are looked
  up from left to right; a missing key raises \<^verbatim>\<open>KeyError\<close>, the first dependency that is
  not COMPLETED ends the scan with False.
\<close>

fun deps_met :: "(string \<times> Task) list \<Rightarrow> string list \<Rightarrow> exn + bool" where
  "deps_met ts [] = Inr True"
| "deps_met ts (dep_id # deps) =
     (case map_of ts dep_id of
        None \<Rightarrow> Inl (KeyError dep_id)
      | Some d \<Rightarrow> if task_status d = COMPLETED then deps_met ts deps else Inr False)"

text \<open>The loop over \<^verbatim>\<open>self.tasks.values()\<close> that fills \<^verbatim>\<open>ready\<close>.\<close>

fun collect_ready :: "(string \<times> Task) list \<Rightarrow> Task list \<Rightarrow> exn + Task list" where
  "collect_ready ts [] = Inr []"
| "collect_ready ts (t # rest) =
     (if task_status t \<in> {READY, PENDING} then
        (case deps_met ts (dependencies t) of
           Inl e \<Rightarrow> Inl e
         | Inr ok \<Rightarrow>
             (case collect_ready ts rest of
                Inl e \<Rightarrow> Inl e
              | Inr ready \<Rightarrow> Inr (if ok then t # ready else ready)))
      else collect_ready ts rest)"

fun priority_order :: "TaskPriority \<Rightarrow> nat" where
  "priority_order CRITICAL = 0"
| "priority_order HIGH = 1"
| "priority_order MEDIUM = 2"
| "priority_order LOW = 3"

text \<open>\<^verbatim>\<open>sorted(ready, key=...)\<close> is a stable sort; \<^const>\<open>sort_key\<close> is one.\<close>

definition get_ready_tasks :: "Workflow \<Rightarrow> exn + Task list" where
  "get_ready_tasks w =
     (case collect_ready (tasks w) (map snd (tasks w)) of
        Inl e \<Rightarrow> Inl e
      | Inr ready \<Rightarrow> Inr (sort_key (\<lambda>t. priority_order (priority t)) ready))"

text \<open>The dictionary returned by \<^verbatim>\<open>get_progress\<close>. The percentage is the float that
  \<^verbatim>\<open>completed / total * 100\<close> evaluates to (a division, then a multiplication), or the
  integer 0 for an empty workflow.\<close>

record Progress =
  pr_total :: int
  pr_completed :: int
  pr_failed :: int
  pr_in_progress :: int
  pr_blocked :: int
  pr_pending :: int
  completion_percentage :: pynum

definition count_status :: "Workflow \<Rightarrow> TaskStatus \<Rightarrow> int" where
  "count_status w st = int (length (filter (\<lambda>t. task_status t = st) (map snd (tasks w))))"

definition get_progress :: "Workflow \<Rightarrow> Progress" where
  "get_progress w =
     (let total = int (length (tasks w));
          completed = count_status w COMPLETED;
          failed = count_status w FAILED;
          in_progress = count_status w IN_PROGRESS;
          blocked = count_status w BLOCKED
      in \<lparr>pr_total = total, pr_completed = completed, pr_failed = failed,
          pr_in_progress = in_progress, pr_blocked = blocked,
          pr_pending = total - completed - failed - in_progress - blocked,
          completion_percentage =
            (if total > 0 then PyFloat (float_mul_int (int_truediv completed total) 100)
             else PyInt 0)\<rparr>)"

subsection \<open>PlannerAgent\<close>

definition next_task_id :: "core_state \<Rightarrow> string \<times> core_state" where
  "next_task_id s =
     (let s1 = s\<lparr>task_counter := task_counter s + 1\<rparr>
      in (''task_'' @ str_nat (task_counter s1), s1))"

definition generate_workflow_id :: "core_state \<Rightarrow> string \<times> core_state" where
  "generate_workflow_id s =
     (let (now, s1) = datetime_now s
      in (''workflow_'' @ stamp now @ ''_'' @ str_nat (length (workflows s1) + 1), s1))"

text \<open>The constructor of the \<^verbatim>\<open>Task\<close> dataclass as the templates call it: the fields
  that are not passed take their defaults, \<^verbatim>\<open>created_at\<close> the clock reading.\<close>

definition Task_init ::
  "string \<Rightarrow> string \<Rightarrow> string \<Rightarrow> string \<Rightarrow> string \<Rightarrow> pydict \<Rightarrow> TaskPriority \<Rightarrow> int \<Rightarrow> datetime
     \<Rightarrow> Task" where
  "Task_init tid name description obj act params prio duration now =
     \<lparr>task_id = tid, task_name = name, task_description = description,
      objective = obj, action = act, parameters = params, priority = prio,
      dependencies = [], task_status = PENDING,
      estimated_duration_seconds = duration, task_created_at = now,
      task_started_at = None, task_completed_at = None, task_result = None,
      task_error = None\<rparr>"

text \<open>
  One \<^verbatim>\<open>Task(id=self._next_task_id(), name=..., ...)\<close> expression of a template: the
  argument \<^verbatim>\<open>id\<close> is evaluated first, then the constructor runs and reads the clock.
\<close>

definition new_task ::
  "core_state \<Rightarrow> string \<Rightarrow> string \<Rightarrow> string \<Rightarrow> string \<Rightarrow> pydict \<Rightarrow> TaskPriority \<Rightarrow> int
     \<Rightarrow> Task \<times> core_state" where
  "new_task s name description obj act params prio duration =
     (let (tid, s1) = next_task_id s;
          (now, s2) = datetime_now s1
      in (Task_init tid name description obj act params prio duration now, s2))"

definition create_briefing_tasks :: "core_state \<Rightarrow> Task list \<times> core_state" where
  "create_briefing_tasks s =
     (let (t1, s1) = new_task s ''Retrieve Documents'' ''Fetch relevant documents and chunks''
                       ''Gather source material for briefing'' ''query_docs''
                       [(''query_type'', PStr ''broad''), (''limit'', PInt 20)] HIGH 10;
          (t2, s2) = new_task s1 ''Extract Key Points'' ''Identify and extract key information''
                       ''Distill content into main points'' ''extract_key_points''
                       [(''method'', PStr ''semantic''), (''max_points'', PInt 10)] HIGH 15;
          (t3, s3) = new_task s2 ''Synthesize Summary'' ''Generate comprehensive summary''
                       ''Create cohesive briefing text'' ''synthesize''
                       [(''style'', PStr ''professional''), (''length'', PStr ''medium'')] HIGH 20;
          (t4, s4) = new_task s3 ''Format Output'' ''Structure briefing for presentation''
                       ''Prepare formatted briefing'' ''format''
                       [(''format'', PStr ''markdown'')] MEDIUM 10
      in ([t1, t2, t3, t4], s4))"

definition create_analysis_tasks :: "core_state \<Rightarrow> Task list \<times> core_state" where
  "create_analysis_tasks s =
     (let (t1, s1) = new_task s ''Gather Data'' ''Collect relevant information''
                       ''Assemble analysis source material'' ''query_docs''
                       [(''query_type'', PStr ''specific''), (''limit'', PInt 30)] HIGH 15;
          (t2, s2) = new_task s1 ''Identify Patterns'' ''Find patterns and relationships''
                       ''Discover key insights'' ''analyze_patterns''
                       [(''method'', PStr ''graph_analysis'')] HIGH 25;
          (t3, s3) = new_task s2 ''Generate Insights'' ''Create analytical summary''
                       ''Produce actionable insights'' ''synthesize''
                       [(''style'', PStr ''analytical''), (''include_recommendations'', PBool True)]
                       MEDIUM 20
      in ([t1, t2, t3], s3))"

definition create_retrieval_tasks :: "core_state \<Rightarrow> Task list \<times> core_state" where
  "create_retrieval_tasks s =
     (let (t1, s1) = new_task s ''Search Documents'' ''Query document collection''
                       ''Find matching documents'' ''query_docs''
                       [(''enable_rerank'', PBool True), (''limit'', PInt 10)] HIGH 10;
          (t2, s2) = new_task s1 ''Rank Results'' ''Rank by relevance''
                       ''Order results by importance'' ''rerank''
                       [(''method'', PStr ''cross_encoder'')] MEDIUM 5;
          (t3, s3) = new_task s2 ''Format Results'' ''Prepare results for output''
                       ''Create formatted result set'' ''format''
                       [(''format'', PStr ''json'')] LOW 5
      in ([t1, t2, t3], s3))"

definition create_generation_tasks :: "core_state \<Rightarrow> Task list \<times> core_state" where
  "create_generation_tasks s =
     (let (t1, s1) = new_task s ''Plan Content'' ''Outline content structure''
                       ''Create content plan'' ''plan''
                       [(''elements'', PList [PStr ''intro'', PStr ''body'', PStr ''conclusion''])]
                       HIGH 10;
          (t2, s2) = new_task s1 ''Generate Content'' ''Create content using LLM''
                       ''Produce text content'' ''synthesize''
                       [(''style'', PStr ''professional''), (''include_examples'', PBool True)]
                       HIGH 20;
          (t3, s3) = new_task s2 ''Review Content'' ''QA and refinement''
                       ''Ensure quality output'' ''review''
                       [(''check_quality'', PBool True)] MEDIUM 15
      in ([t1, t2, t3], s3))"

definition create_update_tasks :: "core_state \<Rightarrow> Task list \<times> core_state" where
  "create_update_tasks s =
     (let (t1, s1) = new_task s ''Check Updates'' ''Scan for new information''
                       ''Identify changed content'' ''check_updates''
                       [(''check_type'', PStr ''new_documents'')] HIGH 10;
          (t2, s2) = new_task s1 ''Process Updates'' ''Incorporate new information''
                       ''Update knowledge base'' ''process_updates''
                       [(''merge_strategy'', PStr ''append'')] HIGH 20;
          (t3, s3) = new_task s2 ''Verify Changes'' ''Validate update integrity''
                       ''Ensure consistency'' ''verify''
                       [(''verify_type'', PStr ''consistency'')] MEDIUM 10
      in ([t1, t2, t3], s3))"

definition create_default_tasks :: "core_state \<Rightarrow> string \<Rightarrow> Task list \<times> core_state" where
  "create_default_tasks s g =
     (let (t1, s1) = new_task s ''Analyze Goal'' (''Break down: '' @ g)
                       ''Understand requirements'' ''analyze'' [(''goal'', PStr g)] HIGH 5;
          (t2, s2) = new_task s1 ''Execute'' ''Perform main action''
                       ''Accomplish goal'' ''execute'' [(''goal'', PStr g)] HIGH 30;
          (t3, s3) = new_task s2 ''Validate Results'' ''Check execution success''
                       ''Ensure goal achieved'' ''validate'' [(''goal'', PStr g)] MEDIUM 10
      in ([t1, t2, t3], s3))"

text \<open>One \<^verbatim>\<open>if any(...): tasks.extend(create())\<close> statement of \<^verbatim>\<open>_decompose_goal\<close>.\<close>

definition extend_if ::
  "bool \<Rightarrow> (core_state \<Rightarrow> Task list \<times> core_state) \<Rightarrow> Task list \<times> core_state
     \<Rightarrow> Task list \<times> core_state" where
  "extend_if b create acc =
     (if b then (let (more, s1) = create (snd acc) in (fst acc @ more, s1)) else acc)"

definition decompose_goal ::
  "core_state \<Rightarrow> string \<Rightarrow> string \<Rightarrow> pydict \<Rightarrow> Task list \<times> core_state" where
  "decompose_goal s g description context =
     (let goal_lower = py_lower g;
          acc1 = extend_if (any_word_in [''briefing'', ''summary'', ''report''] goal_lower)
                   create_briefing_tasks ([], s);
          acc2 = extend_if (any_word_in [''analyze'', ''analysis'', ''examine''] goal_lower)
                   create_analysis_tasks acc1;
          acc3 = extend_if (any_word_in [''search'', ''find'', ''retrieve'', ''query''] goal_lower)
                   create_retrieval_tasks acc2;
          acc4 = extend_if (any_word_in [''generate'', ''create'', ''write''] goal_lower)
                   create_generation_tasks acc3;
          acc5 = extend_if (any_word_in [''update'', ''refresh'', ''sync''] goal_lower)
                   create_update_tasks acc4
      in if fst acc5 = [] then create_default_tasks (snd acc5) g else acc5)"

definition action_sequences :: "(string \<times> string list) list" where
  "action_sequences =
     [(''query_docs'', [''rerank'', ''format'']),
      (''extract_key_points'', [''synthesize'']),
      (''analyze_patterns'', [''synthesize'']),
      (''plan'', [''synthesize'']),
      (''generate_content'', [''review'']),
      (''check_updates'', [''process_updates'']),
      (''process_updates'', [''verify''])]"

text \<open>The inner loop of \<^verbatim>\<open>_resolve_dependencies\<close> for one producing \<open>task\<close>: every other
  task whose action is among the dependent actions gets the producer's ID appended to
  its dependencies, unless it is there already.\<close>

definition add_dependents :: "Task \<Rightarrow> string list \<Rightarrow> (string \<times> Task) list \<Rightarrow> (string \<times> Task) list" where
  "add_dependents task dependent_actions ts =
     map (\<lambda>(k, other_task).
            (k, if action other_task \<in> set dependent_actions \<and> task_id other_task \<noteq> task_id task
                  \<and> task_id task \<notin> set (dependencies other_task)
                then other_task\<lparr>dependencies := dependencies other_task @ [task_id task]\<rparr>
                else other_task)) ts"

text \<open>The outer loop reads only \<open>action\<close> and \<open>task_id\<close> of each task, which the inner
  loop never changes, so it can run over the tasks as they were at the start.\<close>

definition resolve_dependencies :: "Workflow \<Rightarrow> Workflow" where
  "resolve_dependencies w =
     w\<lparr>tasks :=
         foldl (\<lambda>ts task.
                  case map_of action_sequences (action task) of
                    None \<Rightarrow> ts
                  | Some dependent_actions \<Rightarrow> add_dependents task dependent_actions ts)
               (tasks w) (map snd (tasks w))\<rparr>"

definition calculate_duration :: "Workflow \<Rightarrow> int" where
  "calculate_duration w =
     (if tasks w = [] then 0 else sum_list (map (\<lambda>(k, t). estimated_duration_seconds t) (tasks w)))"

text \<open>\<^verbatim>\<open>plan_workflow\<close> returns a reference to the new Workflow object, which it has also
  stored in \<^verbatim>\<open>self.workflows\<close>.\<close>

definition plan_workflow ::
  "core_state \<Rightarrow> string \<Rightarrow> string \<Rightarrow> pydict option \<Rightarrow> addr \<times> core_state" where
  "plan_workflow s g description context =
     (let (new_id, s1) = generate_workflow_id s;
          (now, s2) = datetime_now s1;
          ctx = (case context of None \<Rightarrow> [] | Some c \<Rightarrow> c);
          workflow0 = \<lparr>wf_id = new_id, goal = g, wf_description = description, tasks = [],
                       task_order = [], wf_status = ''planning'', wf_created_at = now,
                       wf_started_at = None, wf_completed_at = None,
                       estimated_total_duration = 0, actual_duration = None,
                       metadata = [(''initial_context'', PDict ctx)]\<rparr>;
          (new_tasks, s3) = decompose_goal s2 g description ctx;
          workflow1 = foldl (\<lambda>w t. w\<lparr>tasks := AList.update (task_id t) t (tasks w),
                                      task_order := task_order w @ [task_id t]\<rparr>)
                            workflow0 new_tasks;
          workflow2 = resolve_dependencies workflow1;
          workflow3 = workflow2\<lparr>estimated_total_duration := calculate_duration workflow2\<rparr>;
          workflow4 = workflow3\<lparr>wf_status := ''ready''\<rparr>;
          a = next_addr s3
      in (a, s3\<lparr>heap := (heap s3)(a := workflow4), next_addr := Suc a,
               workflows := AList.update new_id a (workflows s3)\<rparr>))"

definition get_workflow :: "core_state \<Rightarrow> string \<Rightarrow> addr option" where
  "get_workflow s wid = map_of (workflows s) wid"

definition get_workflows :: "core_state \<Rightarrow> addr list" where
  "get_workflows s = map snd (workflows s)"

text \<open>\<^verbatim>\<open>update_task_status\<close>: the arguments \<open>result\<close> and \<open>error\<close> default to \<^verbatim>\<open>None\<close>. The
  task object is changed in place, so it keeps its position in the task dictionary.\<close>

definition update_task_status ::
  "core_state \<Rightarrow> string \<Rightarrow> string \<Rightarrow> TaskStatus \<Rightarrow> pydict option \<Rightarrow> string option
     \<Rightarrow> bool \<times> core_state" where
  "update_task_status s wid tid status result error =
     (case map_of (workflows s) wid of
        None \<Rightarrow> (False, s)
      | Some a \<Rightarrow>
          (case map_of (tasks (heap s a)) tid of
             None \<Rightarrow> (False, s)
           | Some task \<Rightarrow>
               (let task1 = task\<lparr>task_status := status\<rparr>;
                    (task2, s1) =
                      (if status = IN_PROGRESS then
                         (let (now, s') = datetime_now s
                          in (task1\<lparr>task_started_at := Some now\<rparr>, s'))
                       else if status = COMPLETED then
                         (let (now, s') = datetime_now s
                          in (task1\<lparr>task_completed_at := Some now, task_result := result\<rparr>, s'))
                       else if status = FAILED then
                         (let (now, s') = datetime_now s
                          in (task1\<lparr>task_error := error, task_completed_at := Some now\<rparr>, s'))
                       else (task1, s));
                    w = heap s1 a
                in (True, s1\<lparr>heap := (heap s1)(a := w\<lparr>tasks := AList.update tid task2 (tasks w)\<rparr>)\<rparr>))))"

definition get_next_tasks :: "core_state \<Rightarrow> string \<Rightarrow> exn + Task list" where
  "get_next_tasks s wid =
     (case map_of (workflows s) wid of
        None \<Rightarrow> Inr []
      | Some a \<Rightarrow> get_ready_tasks (heap s a))"

definition get_workflow_progress :: "core_state \<Rightarrow> string \<Rightarrow> Progress option" where
  "get_workflow_progress s wid =
     (case map_of (workflows s) wid of
        None \<Rightarrow> None
      | Some a \<Rightarrow> Some (get_progress (heap s a)))"

subsection \<open>AgentOrchestrator: executing one task\<close>

text \<open>\<^verbatim>\<open>_default_handler\<close>, used for an action without a registered handler.\<close>

definition default_handler :: "pydict \<Rightarrow> exn + pydict" where
  "default_handler params =
     Inr [(''action'', PStr ''unknown''), (''output'', PStr ''Action executed''),
          (''parameters'', PDict params)]"

text \<open>The \<^verbatim>\<open>except Exception as e\<close> block of \<^verbatim>\<open>_execute_task\<close>. The boolean returned by
  \<^verbatim>\<open>update_task_status\<close> is dropped, as in the source.\<close>

definition fail_task ::
  "core_state \<Rightarrow> addr \<Rightarrow> Task \<Rightarrow> ExecutionResult \<Rightarrow> exn \<Rightarrow> bool \<times> core_state \<times> ExecutionResult" where
  "fail_task s a task r e =
     (let error_msg = ''Task '' @ task_id task @ '' failed: '' @ exn_str e;
          r1 = r\<lparr>errors := errors r @ [error_msg]\<rparr>;
          s1 = snd (update_task_status s (wf_id (heap s a)) (task_id task) FAILED None
                      (Some error_msg))
      in (False, s1, r1))"

text \<open>\<^verbatim>\<open>if self.config.enable_criticism and task_result.get("output"): ...\<close>\<close>

definition review_step ::
  "AgentOrchestrator \<Rightarrow> core_state \<Rightarrow> Task \<Rightarrow> pyval \<Rightarrow> ExecutionResult
     \<Rightarrow> exn option \<times> core_state \<times> ExecutionResult" where
  "review_step orch s task output r =
     (if enable_criticism (config orch) \<and> truthy output then
        (let s1 = s\<lparr>critic_calls := critic_calls s + 1\<rparr>
         in case critic_review orch (critic_calls s) output (action task)
                   [(''task'', PStr (task_name task))] of
              Inl e \<Rightarrow> (Some e, s1, r)
            | Inr review \<Rightarrow>
                (None, s1, r\<lparr>reviews := AList.update (task_id task) review (reviews r)\<rparr>))
      else (None, s, r))"

text \<open>\<^verbatim>\<open>if self.config.enable_summarization and task_result.get("output"):
       if len(task_result["output"]) > 200: ...\<close>\<close>

definition summarize_step ::
  "AgentOrchestrator \<Rightarrow> core_state \<Rightarrow> Task \<Rightarrow> pyval \<Rightarrow> ExecutionResult
     \<Rightarrow> exn option \<times> core_state \<times> ExecutionResult" where
  "summarize_step orch s task output r =
     (if enable_summarization (config orch) \<and> truthy output then
        (case py_len output of
           Inl e \<Rightarrow> (Some e, s, r)
         | Inr n \<Rightarrow>
             if n > 200 then
               (let s1 = s\<lparr>summarizer_calls := summarizer_calls s + 1\<rparr>
                in case summarizer_summarize orch (summarizer_calls s) output of
                     Inl e \<Rightarrow> (Some e, s1, r)
                   | Inr summary \<Rightarrow>
                       (None, s1,
                        r\<lparr>summaries := AList.update (task_id task) summary (summaries r)\<rparr>))
             else (None, s, r))
      else (None, s, r))"

text \<open>
  \<^verbatim>\<open>_execute_task(workflow, task, result)\<close>. \<open>a\<close> is the reference to the workflow object
  that was passed in; the status updates go through the planner, which looks the
  workflow up by \<^verbatim>\<open>workflow.id\<close> in its own registry. \<open>task\<close> is the task object taken from
  the ready list; only fields that no code assigns after planning are read from it.
\<close>

definition execute_task ::
  "AgentOrchestrator \<Rightarrow> core_state \<Rightarrow> addr \<Rightarrow> Task \<Rightarrow> ExecutionResult
     \<Rightarrow> bool \<times> core_state \<times> ExecutionResult" where
  "execute_task orch s a task r =
     (let s0 = s\<lparr>dispatch_log := dispatch_log s @ [task_id task]\<rparr>;
          s1 = snd (update_task_status s0 (wf_id (heap s0 a)) (task_id task) IN_PROGRESS None None);
          handler = (case map_of (action_handlers orch) (action task) of
                       None \<Rightarrow> default_handler
                     | Some h \<Rightarrow> h)
      in case handler (parameters task) of
           Inl e \<Rightarrow> fail_task s1 a task r e
         | Inr task_result_v \<Rightarrow>
             (let s2 = snd (update_task_status s1 (wf_id (heap s1 a)) (task_id task) COMPLETED
                              (Some task_result_v) None);
                  r1 = r\<lparr>results := AList.update (task_id task) task_result_v (results r)\<rparr>;
                  output = (case map_of task_result_v ''output'' of None \<Rightarrow> PNone | Some v \<Rightarrow> v)
              in case review_step orch s2 task output r1 of
                   (Some e, s3, r2) \<Rightarrow> fail_task s3 a task r2 e
                 | (None, s3, r2) \<Rightarrow>
                     (case summarize_step orch s3 task output r2 of
                        (Some e, s4, r3) \<Rightarrow> fail_task s4 a task r3 e
                      | (None, s4, r3) \<Rightarrow> (True, s4, r3))))"

subsection \<open>AgentOrchestrator: execution strategies\<close>

text \<open>
  The body \<^verbatim>\<open>for task in ready_not_executed: ...\<close> shared by both loops. The set
  \<^verbatim>\<open>executed\<close> is a duplicate-free list; \<^verbatim>\<open>executed.add\<close> is \<^const>\<open>List.insert\<close>.
\<close>

fun execute_ready ::
  "AgentOrchestrator \<Rightarrow> addr \<Rightarrow> Task list \<Rightarrow> core_state \<times> ExecutionResult \<times> string list
     \<Rightarrow> core_state \<times> ExecutionResult \<times> string list" where
  "execute_ready orch a [] acc = acc"
| "execute_ready orch a (task # rest) (s, r, executed) =
     (case execute_task orch s a task r of
        (ok, s1, r1) \<Rightarrow>
          execute_ready orch a rest
            (s1,
             if ok then r1\<lparr>tasks_completed := tasks_completed r1 + 1\<rparr>
                   else r1\<lparr>tasks_failed := tasks_failed r1 + 1\<rparr>,
             List.insert (task_id task) executed))"

text \<open>No step of the execution adds or removes a task, or renames a key; the loops below
  terminate because of it.\<close>

lemma update_task_status_keys:
  "map fst (tasks (heap (snd (update_task_status s wid tid st res err)) b)) =
   map fst (tasks (heap s b))"
  apply (simp add: update_task_status_def datetime_now_def update_keys Let_def
           split: option.splits prod.splits)
  apply (auto dest!: map_of_SomeD simp: rev_image_eqI)
  done

lemma fail_task_keys:
  "fail_task s a task r e = (ok, s', r') \<Longrightarrow>
   map fst (tasks (heap s' b)) = map fst (tasks (heap s b))"
  by (auto simp: fail_task_def Let_def update_task_status_keys)

lemma review_step_heap: "review_step orch s task out r = (e, s', r') \<Longrightarrow> heap s' = heap s"
  by (auto simp: review_step_def Let_def split: sum.splits if_splits)

lemma summarize_step_heap: "summarize_step orch s task out r = (e, s', r') \<Longrightarrow> heap s' = heap s"
  by (auto simp: summarize_step_def Let_def split: sum.splits if_splits)

lemma execute_task_keys:
  assumes "execute_task orch s a task r = (ok, s', r')"
  shows "map fst (tasks (heap s' b)) = map fst (tasks (heap s b))"
proof -
  let ?s0 = "s\<lparr>dispatch_log := dispatch_log s @ [task_id task]\<rparr>"
  let ?s1 = "snd (update_task_status ?s0 (wf_id (heap ?s0 a)) (task_id task) IN_PROGRESS None None)"
  have k1: "map fst (tasks (heap ?s1 b)) = map fst (tasks (heap s b))"
    using update_task_status_keys [of ?s0 _ _ _ _ _ b] by simp
  show ?thesis
    using assms k1 unfolding execute_task_def Let_def
    by (auto split: sum.splits prod.splits option.splits
             dest!: fail_task_keys [where b = b] review_step_heap summarize_step_heap
             simp: update_task_status_keys)
qed

lemma execute_ready_keys:
  "execute_ready orch a ts (s, r, ex) = (s', r', ex') \<Longrightarrow>
   map fst (tasks (heap s' b)) = map fst (tasks (heap s b))"
proof (induction ts arbitrary: s r ex)
  case Nil
  then show ?case by simp
next
  case (Cons t ts)
  then show ?case
    by (auto split: prod.splits dest!: execute_task_keys [where b = b])
qed

lemma execute_ready_executed:
  "execute_ready orch a ts (s, r, ex) = (s', r', ex') \<Longrightarrow>
   set ex' = set ex \<union> task_id ` set ts \<and> length ex \<le> length ex'"
proof (induction ts arbitrary: s r ex)
  case Nil
  then show ?case by simp
next
  case (Cons t ts)
  obtain ok s1 r1 where et: "execute_task orch s a t r = (ok, s1, r1)"
    by (cases "execute_task orch s a t r") auto
  let ?r = "if ok then r1\<lparr>tasks_completed := tasks_completed r1 + 1\<rparr>
                   else r1\<lparr>tasks_failed := tasks_failed r1 + 1\<rparr>"
  from Cons.prems et
  have "execute_ready orch a ts (s1, ?r, List.insert (task_id t) ex) = (s', r', ex')"
    by simp
  from Cons.IH [OF this]
  have "set ex' = set (List.insert (task_id t) ex) \<union> task_id ` set ts"
    and "length (List.insert (task_id t) ex) \<le> length ex'" by auto
  moreover have "length ex \<le> length (List.insert (task_id t) ex)"
    by (simp add: List.insert_def)
  ultimately show ?case by auto
qed

lemma execute_ready_grows:
  assumes "execute_ready orch a ts (s, r, ex) = (s', r', ex')"
    and "ts \<noteq> []" and "\<forall>t \<in> set ts. task_id t \<notin> set ex"
  shows "length ex < length ex'"
proof -
  obtain t rest where ts: "ts = t # rest" using assms(2) by (cases ts) auto
  obtain ok s1 r1 where et: "execute_task orch s a t r = (ok, s1, r1)"
    by (cases "execute_task orch s a t r") auto
  let ?r = "if ok then r1\<lparr>tasks_completed := tasks_completed r1 + 1\<rparr>
                   else r1\<lparr>tasks_failed := tasks_failed r1 + 1\<rparr>"
  from assms(1) ts et
  have "execute_ready orch a rest (s1, ?r, List.insert (task_id t) ex) = (s', r', ex')"
    by simp
  from execute_ready_executed [OF this]
  have "length (List.insert (task_id t) ex) \<le> length ex'" by simp
  moreover have "task_id t \<notin> set ex" using assms(3) ts by simp
  ultimately show ?thesis by (simp add: List.insert_def)
qed

text \<open>
  \<^verbatim>\<open>_execute_sequential\<close>: the \<^verbatim>\<open>while len(executed) < len(workflow.tasks)\<close> loop. It
  returns normally (\<open>None\<close>), or raises (\<open>Some e\<close>): the \<^verbatim>\<open>RuntimeError\<close> of the source, or
  the \<^verbatim>\<open>KeyError\<close> of \<^verbatim>\<open>get_ready_tasks\<close>.
\<close>

function execute_sequential_loop ::
  "AgentOrchestrator \<Rightarrow> addr \<Rightarrow> core_state \<Rightarrow> ExecutionResult \<Rightarrow> string list
     \<Rightarrow> exn option \<times> core_state \<times> ExecutionResult" where
  "execute_sequential_loop orch a s r executed =
     (if length executed < length (tasks (heap s a)) then
        (case get_ready_tasks (heap s a) of
           Inl e \<Rightarrow> (Some e, s, r)
         | Inr ready_tasks \<Rightarrow>
             (let ready_not_executed = filter (\<lambda>t. task_id t \<notin> set executed) ready_tasks
              in if ready_not_executed = [] then
                   (if executed \<noteq> [] then (None, s, r)
                    else (Some (RuntimeError ''No ready tasks and nothing executed''), s, r))
                 else
                   (case execute_ready orch a ready_not_executed (s, r, executed) of
                      (s1, r1, executed1) \<Rightarrow> execute_sequential_loop orch a s1 r1 executed1)))
      else (None, s, r))"
  by pat_completeness auto
termination
proof (relation "measure (\<lambda>(orch, a, s, r, executed). length (tasks (heap s a)) - length executed)",
       goal_cases)
  case 1
  show ?case by simp
next
  case (2 orch a s r executed ready_tasks ready_not_executed s1 y r1 executed1)
  have er: "execute_ready orch a ready_not_executed (s, r, executed) = (s1, r1, executed1)"
    using 2 by simp
  have "\<forall>t \<in> set ready_not_executed. task_id t \<notin> set executed"
    using 2 by auto
  with er 2 have "length executed < length executed1"
    using execute_ready_grows by blast
  moreover have "length (tasks (heap s1 a)) = length (tasks (heap s a))"
    using execute_ready_keys [OF er, of a] by (auto dest: arg_cong [where f = length])
  moreover note \<open>length executed < length (tasks (heap s a))\<close>
  ultimately show ?case by simp
qed

definition execute_sequential ::
  "AgentOrchestrator \<Rightarrow> core_state \<Rightarrow> addr \<Rightarrow> ExecutionResult
     \<Rightarrow> exn option \<times> core_state \<times> ExecutionResult" where
  "execute_sequential orch s a r = execute_sequential_loop orch a s r []"

text \<open>\<^verbatim>\<open>_execute_parallel\<close>: its own loop in the source, written out again here.\<close>

function execute_parallel_loop ::
  "AgentOrchestrator \<Rightarrow> addr \<Rightarrow> core_state \<Rightarrow> ExecutionResult \<Rightarrow> string list
     \<Rightarrow> exn option \<times> core_state \<times> ExecutionResult" where
  "execute_parallel_loop orch a s r executed =
     (if length executed < length (tasks (heap s a)) then
        (case get_ready_tasks (heap s a) of
           Inl e \<Rightarrow> (Some e, s, r)
         | Inr ready_tasks \<Rightarrow>
             (let ready_not_executed = filter (\<lambda>t. task_id t \<notin> set executed) ready_tasks
              in if ready_not_executed = [] then
                   (if executed \<noteq> [] then (None, s, r)
                    else (Some (RuntimeError ''No ready tasks and nothing executed''), s, r))
                 else
                   (case execute_ready orch a ready_not_executed (s, r, executed) of
                      (s1, r1, executed1) \<Rightarrow> execute_parallel_loop orch a s1 r1 executed1)))
      else (None, s, r))"
  by pat_completeness auto
termination
proof (relation "measure (\<lambda>(orch, a, s, r, executed). length (tasks (heap s a)) - length executed)",
       goal_cases)
  case 1
  show ?case by simp
next
  case (2 orch a s r executed ready_tasks ready_not_executed s1 y r1 executed1)
  have er: "execute_ready orch a ready_not_executed (s, r, executed) = (s1, r1, executed1)"
    using 2 by simp
  have "\<forall>t \<in> set ready_not_executed. task_id t \<notin> set executed"
    using 2 by auto
  with er 2 have "length executed < length executed1"
    using execute_ready_grows by blast
  moreover have "length (tasks (heap s1 a)) = length (tasks (heap s a))"
    using execute_ready_keys [OF er, of a] by (auto dest: arg_cong [where f = length])
  moreover note \<open>length executed < length (tasks (heap s a))\<close>
  ultimately show ?case by simp
qed

definition execute_parallel ::
  "AgentOrchestrator \<Rightarrow> core_state \<Rightarrow> addr \<Rightarrow> ExecutionResult
     \<Rightarrow> exn option \<times> core_state \<times> ExecutionResult" where
  "execute_parallel orch s a r = execute_parallel_loop orch a s r []"

declare execute_sequential_loop.simps [simp del]

declare execute_parallel_loop.simps [simp del]

text \<open>\<^verbatim>\<open>_execute_hybrid\<close> calls \<^verbatim>\<open>_execute_sequential\<close>.\<close>

definition execute_hybrid ::
  "AgentOrchestrator \<Rightarrow> core_state \<Rightarrow> addr \<Rightarrow> ExecutionResult
     \<Rightarrow> exn option \<times> core_state \<times> ExecutionResult" where
  "execute_hybrid orch s a r = execute_sequential orch s a r"

subsection \<open>AgentOrchestrator: running a workflow\<close>

text \<open>\<^verbatim>\<open>int((completed_at - started_at).total_seconds())\<close>: \<^verbatim>\<open>total_seconds()\<close> divides the
  difference in microseconds by \<^verbatim>\<open>10**6\<close>, which gives a float, and \<^verbatim>\<open>int\<close> rounds it
  towards zero.\<close>

definition whole_seconds :: "datetime \<Rightarrow> datetime \<Rightarrow> int" where
  "whole_seconds started completed =
     py_int (int_truediv (micros completed - micros started) 1000000)"

text \<open>The \<^verbatim>\<open>ExecutionResult(...)\<close> that \<^verbatim>\<open>_execute_workflow_tasks\<close> creates; \<open>started\<close> is
  the clock reading its constructor takes for \<^verbatim>\<open>started_at\<close>.\<close>

definition new_execution_result :: "Workflow \<Rightarrow> datetime \<Rightarrow> ExecutionResult" where
  "new_execution_result w started =
     \<lparr>workflow_id = wf_id w, success = False, er_status = ''running'',
      er_started_at = started, er_completed_at = None, duration_seconds = 0,
      tasks_completed = 0, tasks_failed = 0, tasks_total = length (tasks w),
      results = [], errors = [], reviews = [], summaries = []\<rparr>"

text \<open>The \<^verbatim>\<open>if\<close>/\<^verbatim>\<open>elif\<close>/\<^verbatim>\<open>else\<close> on the configured mode.\<close>

definition run_strategy ::
  "AgentOrchestrator \<Rightarrow> core_state \<Rightarrow> addr \<Rightarrow> ExecutionResult
     \<Rightarrow> exn option \<times> core_state \<times> ExecutionResult" where
  "run_strategy orch s a r =
     (if mode (config orch) = SEQUENTIAL then execute_sequential orch s a r
      else if mode (config orch) = PARALLEL then execute_parallel orch s a r
      else execute_hybrid orch s a r)"

text \<open>
  \<^verbatim>\<open>_execute_workflow_tasks(workflow)\<close>. The ExecutionResult is created first; an empty
  workflow returns early; otherwise the strategy runs inside \<^verbatim>\<open>try\<close>, followed by the
  rest of the \<^verbatim>\<open>try\<close> body when it returned or by the \<^verbatim>\<open>except\<close> block when it raised, and
  then by the \<^verbatim>\<open>finally\<close> block.
\<close>

definition execute_workflow_tasks ::
  "AgentOrchestrator \<Rightarrow> core_state \<Rightarrow> addr \<Rightarrow> ExecutionResult \<times> core_state" where
  "execute_workflow_tasks orch s a =
     (let (started, s0) = datetime_now s;
          result = new_execution_result (heap s0 a) started
      in if tasks (heap s0 a) = [] then
           (let (now, s1) = datetime_now s0
            in (result\<lparr>er_status := ''completed'', success := True,
                       er_completed_at := Some now\<rparr>, s1))
         else
           (case run_strategy orch s0 a result of
              (raised, s1, r1) \<Rightarrow>
                (let r2 = (case raised of
                             None \<Rightarrow>
                               (let ok = (tasks_failed r1 = 0)
                                in r1\<lparr>success := ok,
                                      er_status := (if ok then ''completed''
                                                    else ''completed_with_errors'')\<rparr>)
                           | Some e \<Rightarrow>
                               r1\<lparr>errors := errors r1 @ [exn_str e], er_status := ''failed'',
                                  success := False\<rparr>);
                     (now, s2) = datetime_now s1
                 in (r2\<lparr>er_completed_at := Some now,
                        duration_seconds := whole_seconds (er_started_at r2) now\<rparr>, s2))))"


subsection \<open>AgentOrchestrator: queries, cancel and retry\<close>

definition get_execution :: "core_state \<Rightarrow> string \<Rightarrow> ExecutionResult option" where
  "get_execution s wid = map_of (executions s) wid"

definition get_all_executions :: "core_state \<Rightarrow> ExecutionResult list" where
  "get_all_executions s = map snd (executions s)"

record WorkflowStatus =
  ws_workflow_id :: string
  ws_goal :: string
  ws_status :: string
  ws_progress :: Progress
  ws_tasks_completed :: nat
  ws_tasks_failed :: nat
  ws_duration_seconds :: int
  ws_success :: bool

definition get_workflow_status :: "core_state \<Rightarrow> string \<Rightarrow> WorkflowStatus option" where
  "get_workflow_status s wid =
     (case map_of (executions s) wid of
        None \<Rightarrow> None
      | Some execution \<Rightarrow>
          (case get_workflow s wid of
             None \<Rightarrow> None
           | Some a \<Rightarrow>
               Some \<lparr>ws_workflow_id = wid, ws_goal = goal (heap s a),
                     ws_status = er_status execution,
                     ws_progress = get_progress (heap s a),
                     ws_tasks_completed = tasks_completed execution,
                     ws_tasks_failed = tasks_failed execution,
                     ws_duration_seconds = duration_seconds execution,
                     ws_success = success execution\<rparr>))"

text \<open>The loop of \<^verbatim>\<open>cancel_workflow\<close> assigns the task objects directly.\<close>

definition cancel_task :: "Task \<Rightarrow> Task" where
  "cancel_task task =
     (if task_status task \<in> {PENDING, READY} then task\<lparr>task_status := BLOCKED\<rparr> else task)"

definition cancel_workflow :: "core_state \<Rightarrow> string \<Rightarrow> bool \<times> core_state" where
  "cancel_workflow s wid =
     (case get_workflow s wid of
        None \<Rightarrow> (False, s)
      | Some a \<Rightarrow>
          (let w = heap s a
           in (True, s\<lparr>heap := (heap s)(a := w\<lparr>tasks := map (\<lambda>(k, t). (k, cancel_task t)) (tasks w)\<rparr>)\<rparr>)))"

definition retry_failed_task :: "core_state \<Rightarrow> string \<Rightarrow> string \<Rightarrow> bool \<times> core_state" where
  "retry_failed_task s wid tid =
     (case get_workflow s wid of
        None \<Rightarrow> (False, s)
      | Some a \<Rightarrow>
          (let w = heap s a
           in case get_task w tid of
                None \<Rightarrow> (False, s)
              | Some task \<Rightarrow>
                  if task_status task \<noteq> FAILED then (False, s)
                  else (True,
                        s\<lparr>heap := (heap s)
                             (a := w\<lparr>tasks := AList.update tid (task\<lparr>task_status := PENDING\<rparr>)
                                                 (tasks w)\<rparr>)\<rparr>)))"

subsection \<open>Initial state and example states\<close>

text \<open>The content of a store cell that holds no workflow yet.\<close>

definition blank_workflow :: Workflow where
  "blank_workflow = \<lparr>wf_id = [], goal = [], wf_description = [], tasks = [], task_order = [],
     wf_status = ''planning'', wf_created_at = \<lparr>micros = 0, stamp = []\<rparr>, wf_started_at = None,
     wf_completed_at = None, estimated_total_duration = 0, actual_duration = None, metadata = []\<rparr>"

text \<open>A newly constructed \<^verbatim>\<open>AgentOrchestrator\<close> with its own new \<^verbatim>\<open>PlannerAgent\<close>.\<close>

definition fresh_core :: "(nat \<Rightarrow> datetime) \<Rightarrow> core_state" where
  "fresh_core clk = \<lparr>workflows = [], task_counter = 0, executions = [], heap = (\<lambda>a. blank_workflow),
     next_addr = 0, clock = clk, clock_reads = 0, critic_calls = 0, summarizer_calls = 0, dispatch_log = []\<rparr>"


text \<open>A clock that advances one second per reading.\<close>

definition example_clock :: "nat \<Rightarrow> datetime" where
  "example_clock n = \<lparr>micros = int n * 1000000, stamp = ''20250101120000''\<rparr>"

text \<open>A workflow of two tasks, B depending on A, held by the planner under its ID. A's
  status is a parameter; B is PENDING.\<close>

definition two_task_workflow :: "TaskStatus \<Rightarrow> Workflow" where
  "two_task_workflow st =
     blank_workflow\<lparr>wf_id := ''wf_1'', wf_status := ''ready'',
       tasks := [(''task_1'', (Task_init ''task_1'' ''A'' [] [] ''fetch'' [] HIGH 5 (example_clock 0))
                                \<lparr>task_status := st\<rparr>),
                 (''task_2'', (Task_init ''task_2'' ''B'' [] [] ''store'' [] MEDIUM 5 (example_clock 1))
                                \<lparr>dependencies := [''task_1'']\<rparr>)],
       task_order := [''task_1'', ''task_2'']\<rparr>"

definition two_task_state :: "TaskStatus \<Rightarrow> core_state" where
  "two_task_state st =
     (fresh_core example_clock)\<lparr>workflows := [(''wf_1'', 0)],
        heap := (\<lambda>a. blank_workflow)(0 := two_task_workflow st), next_addr := 1\<rparr>"


text \<open>A workflow of eight tasks of all four priorities. The first is COMPLETED and the last
  FAILED; of the others, all PENDING or READY, only the seventh has a dependency that is not
  COMPLETED.\<close>

definition priority_workflow :: Workflow where
  "priority_workflow =
     blank_workflow\<lparr>wf_id := ''wf_1'', wf_status := ''ready'',
       tasks := [(''task_1'', (Task_init ''task_1'' ''A'' [] [] ''fetch'' [] HIGH 5 (example_clock 0))
                                \<lparr>task_status := COMPLETED\<rparr>),
                 (''task_2'', Task_init ''task_2'' ''B'' [] [] ''store'' [] LOW 5 (example_clock 1)),
                 (''task_3'', (Task_init ''task_3'' ''C'' [] [] ''fetch'' [] MEDIUM 5 (example_clock 2))
                                \<lparr>dependencies := [''task_1''], task_status := READY\<rparr>),
                 (''task_4'', (Task_init ''task_4'' ''D'' [] [] ''store'' [] HIGH 5 (example_clock 3))
                                \<lparr>dependencies := [''task_1'']\<rparr>),
                 (''task_5'', Task_init ''task_5'' ''E'' [] [] ''fetch'' [] MEDIUM 5 (example_clock 4)),
                 (''task_6'', (Task_init ''task_6'' ''F'' [] [] ''store'' [] CRITICAL 5 (example_clock 5))
                                \<lparr>dependencies := [''task_1'']\<rparr>),
                 (''task_7'', (Task_init ''task_7'' ''G'' [] [] ''fetch'' [] CRITICAL 5 (example_clock 6))
                                \<lparr>dependencies := [''task_1'', ''task_2'']\<rparr>),
                 (''task_8'', (Task_init ''task_8'' ''H'' [] [] ''store'' [] HIGH 5 (example_clock 7))
                                \<lparr>task_status := FAILED\<rparr>)],
       task_order := [''task_1'', ''task_2'', ''task_3'', ''task_4'', ''task_5'', ''task_6'',
                      ''task_7'', ''task_8'']\<rparr>"

text \<open>An orchestrator with two registered handlers; the handler of \<^verbatim>\<open>fetch\<close> raises when
  \<open>fetch_fails\<close> is set. The collaborators approve and summarise everything.\<close>

definition default_config :: AgentExecutionConfig where
  "default_config = \<lparr>mode = SEQUENTIAL, max_retries = 3, timeout_seconds = 300,
     enable_criticism = True, enable_summarization = True, log_execution = True\<rparr>"

definition example_orchestrator :: "bool \<Rightarrow> AgentOrchestrator" where
  "example_orchestrator fetch_fails =
     \<lparr>config = default_config,
      action_handlers =
        [(''fetch'', \<lambda>params. if fetch_fails then Inl (Exception ''boom'')
                              else Inr [(''action'', PStr ''fetch''), (''output'', PStr ''fetched'')]),
         (''store'', \<lambda>params. Inr [(''action'', PStr ''store''), (''output'', PStr ''stored'')])],
      critic_review = (\<lambda>n content content_type context.
         Inr \<lparr>rv_content_id = ''review'', is_approved = True, review_summary = ''fine''\<rparr>),
      summarizer_summarize = (\<lambda>n content.
         Inr \<lparr>sm_content_id = ''summary'', summary_text = ''short''\<rparr>)\<rparr>"

text \<open>Scenario A: the workflow a newly constructed planner returns for the goal
  \<^verbatim>\<open>"Create a daily briefing"\<close>.\<close>

definition scenario_A :: Workflow where
  "scenario_A =
     (case plan_workflow (fresh_core example_clock) ''Create a daily briefing''
             ''Generate executive summary of new documents'' None of
        (a, s) \<Rightarrow> heap s a)"


text \<open>The workflow that a second call with the same goal returns on the same planner.\<close>

definition second_briefing :: Workflow where
  "second_briefing =
     (case plan_workflow (fresh_core example_clock) ''Create a daily briefing''
             ''Generate executive summary of new documents'' None of
        (a, s) \<Rightarrow> (case plan_workflow s ''Create a daily briefing'' ''Another briefing'' None of
                     (b, s') \<Rightarrow> heap s' b))"

subsection \<open>Vocabulary of the specification\<close>

text \<open>Every dependency of every task is a key of the workflow's task dictionary.\<close>

definition deps_closed :: "Workflow \<Rightarrow> bool" where
  "deps_closed w =
     list_all (\<lambda>t. list_all (\<lambda>d. map_of (tasks w) d \<noteq> None) (dependencies t)) (map snd (tasks w))"

text \<open>The specification's notion of a ready task: its status is PENDING or READY and
  every dependency task's status is COMPLETED.\<close>

definition dep_completed :: "Workflow \<Rightarrow> string \<Rightarrow> bool" where
  "dep_completed w d = (case map_of (tasks w) d of None \<Rightarrow> False | Some dt \<Rightarrow> task_status dt = COMPLETED)"

definition ready_per_spec :: "Workflow \<Rightarrow> Task \<Rightarrow> bool" where
  "ready_per_spec w t =
     ((task_status t = PENDING \<or> task_status t = READY) \<and> list_all (dep_completed w) (dependencies t))"

subsection \<open>Steps of an execution\<close>





subsection \<open>Invariants\<close>









section \<open>Properties\<close>

subsection \<open>Auxiliary facts about association lists\<close>

lemma update_nth_other:
  "i < length (AList.update k v al) \<Longrightarrow> fst (AList.update k v al ! i) \<noteq> k \<Longrightarrow>
   AList.update k v al ! i = al ! i"
proof (induction al arbitrary: i)
  case Nil
  then show ?case by simp
next
  case (Cons p ps)
  then show ?case by (cases i) (auto split: if_splits)
qed

lemma map_cancel_keys: "map fst (map (\<lambda>(k, t). (k, cancel_task t)) ts) = map fst ts"
  by (induction ts) (auto simp: case_prod_unfold)


subsection \<open>Cancelling a workflow\<close>

text \<open>
  Claim C7. \<^verbatim>\<open>cancel_workflow\<close> on an unknown workflow ID returns False and leaves the
  state as it was. On a known ID it returns True; the state changes only in the store
  cell of that workflow, and there only in the task dictionary; the keys and their order
  stay; a task that was PENDING or READY is the same task with status BLOCKED, a task
  that was IN_PROGRESS, COMPLETED, FAILED or BLOCKED is unchanged.
\<close>

theorem cancel_workflow_frame:
  "(map_of (workflows s) wid = None \<longrightarrow> cancel_workflow s wid = (False, s)) \<and>
   (\<forall>a. map_of (workflows s) wid = Some a \<longrightarrow>
      (let s' = snd (cancel_workflow s wid); w = heap s a; w' = heap s' a
       in fst (cancel_workflow s wid) = True
          \<and> s' = s\<lparr>heap := (heap s)(a := w')\<rparr>
          \<and> w' = w\<lparr>tasks := tasks w'\<rparr>
          \<and> map fst (tasks w') = map fst (tasks w)
          \<and> (\<forall>i < length (tasks w).
                (task_status (snd (tasks w ! i)) \<in> {PENDING, READY} \<longrightarrow>
                   snd (tasks w' ! i) = (snd (tasks w ! i))\<lparr>task_status := BLOCKED\<rparr>) \<and>
                (task_status (snd (tasks w ! i)) \<in> {IN_PROGRESS, COMPLETED, FAILED, BLOCKED} \<longrightarrow>
                   snd (tasks w' ! i) = snd (tasks w ! i)))))"
proof (intro conjI allI impI)
  assume "map_of (workflows s) wid = None"
  then show "cancel_workflow s wid = (False, s)"
    by (simp add: cancel_workflow_def get_workflow_def)
next
  fix a assume known: "map_of (workflows s) wid = Some a"
  let ?w = "heap s a"
  let ?ts' = "map (\<lambda>(k, t). (k, cancel_task t)) (tasks ?w)"
  have c: "cancel_workflow s wid = (True, s\<lparr>heap := (heap s)(a := ?w\<lparr>tasks := ?ts'\<rparr>)\<rparr>)"
    using known by (simp add: cancel_workflow_def get_workflow_def Let_def)
  have t: "\<forall>i < length (tasks ?w).
       (task_status (snd (tasks ?w ! i)) \<in> {PENDING, READY} \<longrightarrow>
          snd (?ts' ! i) = (snd (tasks ?w ! i))\<lparr>task_status := BLOCKED\<rparr>) \<and>
       (task_status (snd (tasks ?w ! i)) \<in> {IN_PROGRESS, COMPLETED, FAILED, BLOCKED} \<longrightarrow>
          snd (?ts' ! i) = snd (tasks ?w ! i))"
    by (auto simp: cancel_task_def case_prod_unfold)
  show "let s' = snd (cancel_workflow s wid); w = heap s a; w' = heap s' a
       in fst (cancel_workflow s wid) = True
          \<and> s' = s\<lparr>heap := (heap s)(a := w')\<rparr>
          \<and> w' = w\<lparr>tasks := tasks w'\<rparr>
          \<and> map fst (tasks w') = map fst (tasks w)
          \<and> (\<forall>i < length (tasks w).
                (task_status (snd (tasks w ! i)) \<in> {PENDING, READY} \<longrightarrow>
                   snd (tasks w' ! i) = (snd (tasks w ! i))\<lparr>task_status := BLOCKED\<rparr>) \<and>
                (task_status (snd (tasks w ! i)) \<in> {IN_PROGRESS, COMPLETED, FAILED, BLOCKED} \<longrightarrow>
                   snd (tasks w' ! i) = snd (tasks w ! i)))"
    unfolding Let_def c using t by (simp add: map_cancel_keys del: map_map)
qed

text \<open>Scenario D: one COMPLETED and one PENDING task.\<close>

theorem cancel_workflow_frame_witness:
  "map_of (workflows (two_task_state COMPLETED)) ''wf_1'' = Some 0 \<and>
   fst (cancel_workflow (two_task_state COMPLETED) ''wf_1'') = True \<and>
   snd (tasks (heap (snd (cancel_workflow (two_task_state COMPLETED) ''wf_1'')) 0) ! 0) =
     snd (tasks (two_task_workflow COMPLETED) ! 0) \<and>
   snd (tasks (heap (snd (cancel_workflow (two_task_state COMPLETED) ''wf_1'')) 0) ! 1) =
     (snd (tasks (two_task_workflow COMPLETED) ! 1))\<lparr>task_status := BLOCKED\<rparr> \<and>
   map_of (workflows (two_task_state COMPLETED)) ''wf_2'' = None \<and>
   cancel_workflow (two_task_state COMPLETED) ''wf_2'' = (False, two_task_state COMPLETED)"
proof -
  let ?s = "two_task_state COMPLETED"
  have known: "map_of (workflows ?s) ''wf_1'' = Some 0"
    and unknown: "map_of (workflows ?s) ''wf_2'' = None"
    and w: "heap ?s 0 = two_task_workflow COMPLETED"
    by (simp_all add: two_task_state_def fresh_core_def)
  have st: "task_status (snd (tasks (two_task_workflow COMPLETED) ! 0)) = COMPLETED"
    "task_status (snd (tasks (two_task_workflow COMPLETED) ! 1)) = PENDING"
    "length (tasks (two_task_workflow COMPLETED)) = 2"
    by (simp_all add: two_task_workflow_def blank_workflow_def Task_init_def)
  from cancel_workflow_frame [of ?s "''wf_1''"] known
  have c: "let s' = snd (cancel_workflow ?s ''wf_1''); w = heap ?s 0; w' = heap s' 0
       in fst (cancel_workflow ?s ''wf_1'') = True
          \<and> s' = ?s\<lparr>heap := (heap ?s)(0 := w')\<rparr>
          \<and> w' = w\<lparr>tasks := tasks w'\<rparr>
          \<and> map fst (tasks w') = map fst (tasks w)
          \<and> (\<forall>i < length (tasks w).
                (task_status (snd (tasks w ! i)) \<in> {PENDING, READY} \<longrightarrow>
                   snd (tasks w' ! i) = (snd (tasks w ! i))\<lparr>task_status := BLOCKED\<rparr>) \<and>
                (task_status (snd (tasks w ! i)) \<in> {IN_PROGRESS, COMPLETED, FAILED, BLOCKED} \<longrightarrow>
                   snd (tasks w' ! i) = snd (tasks w ! i)))"
    by blast
  then have all: "\<forall>i < 2.
                (task_status (snd (tasks (two_task_workflow COMPLETED) ! i)) \<in> {PENDING, READY} \<longrightarrow>
                   snd (tasks (heap (snd (cancel_workflow ?s ''wf_1'')) 0) ! i)
                     = (snd (tasks (two_task_workflow COMPLETED) ! i))\<lparr>task_status := BLOCKED\<rparr>) \<and>
                (task_status (snd (tasks (two_task_workflow COMPLETED) ! i)) \<in> {IN_PROGRESS, COMPLETED, FAILED, BLOCKED} \<longrightarrow>
                   snd (tasks (heap (snd (cancel_workflow ?s ''wf_1'')) 0) ! i)
                     = snd (tasks (two_task_workflow COMPLETED) ! i))"
    and ok: "fst (cancel_workflow ?s ''wf_1'') = True"
    unfolding Let_def w st(3) by blast+
  have "snd (tasks (heap (snd (cancel_workflow ?s ''wf_1'')) 0) ! 0) =
     snd (tasks (two_task_workflow COMPLETED) ! 0)"
    using all [rule_format, of 0] st(1) by simp
  moreover have "snd (tasks (heap (snd (cancel_workflow ?s ''wf_1'')) 0) ! 1) =
     (snd (tasks (two_task_workflow COMPLETED) ! 1))\<lparr>task_status := BLOCKED\<rparr>"
    using all [rule_format, of 1] st(2) by simp
  moreover have "cancel_workflow ?s ''wf_2'' = (False, ?s)"
    using cancel_workflow_frame [of ?s "''wf_2''"] unknown by blast
  ultimately show ?thesis using known unknown ok by blast
qed

subsection \<open>Retrying a failed task\<close>

text \<open>
  Claim C9. \<^verbatim>\<open>retry_failed_task\<close> returns False and leaves the state as it was when the
  workflow ID or the task ID is unknown, or when the task's status is not FAILED. On a
  FAILED task it returns True; the state changes only in the store cell of that
  workflow, and there only in the task dictionary; the keys and their order stay; the
  entry of the task is the same task with status PENDING, so its error, result,
  started_at and completed_at are the ones the failed attempt left; every other entry
  is unchanged.
\<close>

theorem retry_failed_task_frame:
  "(map_of (workflows s) wid = None \<longrightarrow> retry_failed_task s wid tid = (False, s)) \<and>
   (\<forall>a. map_of (workflows s) wid = Some a \<longrightarrow>
      (map_of (tasks (heap s a)) tid = None \<longrightarrow> retry_failed_task s wid tid = (False, s)) \<and>
      (\<forall>t. map_of (tasks (heap s a)) tid = Some t \<longrightarrow>
         (task_status t \<noteq> FAILED \<longrightarrow> retry_failed_task s wid tid = (False, s)) \<and>
         (task_status t = FAILED \<longrightarrow>
            (let s' = snd (retry_failed_task s wid tid); w = heap s a; w' = heap s' a
             in fst (retry_failed_task s wid tid) = True
                \<and> s' = s\<lparr>heap := (heap s)(a := w')\<rparr>
                \<and> w' = w\<lparr>tasks := tasks w'\<rparr>
                \<and> map fst (tasks w') = map fst (tasks w)
                \<and> map_of (tasks w') tid = Some (t\<lparr>task_status := PENDING\<rparr>)
                \<and> (\<forall>k. k \<noteq> tid \<longrightarrow> map_of (tasks w') k = map_of (tasks w) k)
                \<and> (\<forall>i < length (tasks w'). fst (tasks w' ! i) \<noteq> tid \<longrightarrow>
                      tasks w' ! i = tasks w ! i)))))"
proof (intro conjI allI impI)
  assume "map_of (workflows s) wid = None"
  then show "retry_failed_task s wid tid = (False, s)"
    by (simp add: retry_failed_task_def get_workflow_def)
next
  fix a assume "map_of (workflows s) wid = Some a" "map_of (tasks (heap s a)) tid = None"
  then show "retry_failed_task s wid tid = (False, s)"
    by (simp add: retry_failed_task_def get_workflow_def get_task_def)
next
  fix a t assume "map_of (workflows s) wid = Some a" "map_of (tasks (heap s a)) tid = Some t"
    "task_status t \<noteq> FAILED"
  then show "retry_failed_task s wid tid = (False, s)"
    by (simp add: retry_failed_task_def get_workflow_def get_task_def)
next
  fix a t assume known: "map_of (workflows s) wid = Some a" "map_of (tasks (heap s a)) tid = Some t"
    "task_status t = FAILED"
  let ?ts = "tasks (heap s a)"
  let ?ts' = "AList.update tid (t\<lparr>task_status := PENDING\<rparr>) ?ts"
  have r: "retry_failed_task s wid tid = (True, s\<lparr>heap := (heap s)(a := (heap s a)\<lparr>tasks := ?ts'\<rparr>)\<rparr>)"
    using known by (simp add: retry_failed_task_def get_workflow_def get_task_def Let_def)
  have "tid \<in> fst ` set ?ts" using known(2) by (metis domI dom_map_of_conv_image_fst)
  then have k: "map fst ?ts' = map fst ?ts" by (simp add: update_keys)
  have m: "map_of ?ts' tid = Some (t\<lparr>task_status := PENDING\<rparr>)"
    "\<forall>k. k \<noteq> tid \<longrightarrow> map_of ?ts' k = map_of ?ts k"
    by (simp_all add: update_conv')
  have n: "\<forall>i < length ?ts'. fst (?ts' ! i) \<noteq> tid \<longrightarrow> ?ts' ! i = ?ts ! i"
    by (auto intro: update_nth_other)
  show "let s' = snd (retry_failed_task s wid tid); w = heap s a; w' = heap s' a
             in fst (retry_failed_task s wid tid) = True
                \<and> s' = s\<lparr>heap := (heap s)(a := w')\<rparr>
                \<and> w' = w\<lparr>tasks := tasks w'\<rparr>
                \<and> map fst (tasks w') = map fst (tasks w)
                \<and> map_of (tasks w') tid = Some (t\<lparr>task_status := PENDING\<rparr>)
                \<and> (\<forall>k. k \<noteq> tid \<longrightarrow> map_of (tasks w') k = map_of (tasks w) k)
                \<and> (\<forall>i < length (tasks w'). fst (tasks w' ! i) \<noteq> tid \<longrightarrow>
                      tasks w' ! i = tasks w ! i)"
    unfolding Let_def r using k m n by simp
qed

text \<open>A workflow whose first task is FAILED: the first task is retried, the second (PENDING)
  and an unknown one are not.\<close>

theorem retry_failed_task_frame_witness:
  "map_of (workflows (two_task_state FAILED)) ''wf_1'' = Some 0 \<and>
   map_of (tasks (heap (two_task_state FAILED) 0)) ''task_1'' =
     Some (snd (tasks (two_task_workflow FAILED) ! 0)) \<and>
   task_status (snd (tasks (two_task_workflow FAILED) ! 0)) = FAILED \<and>
   fst (retry_failed_task (two_task_state FAILED) ''wf_1'' ''task_1'') = True \<and>
   map_of (tasks (heap (snd (retry_failed_task (two_task_state FAILED) ''wf_1'' ''task_1'')) 0)) ''task_1'' =
     Some ((snd (tasks (two_task_workflow FAILED) ! 0))\<lparr>task_status := PENDING\<rparr>) \<and>
   map_of (tasks (heap (snd (retry_failed_task (two_task_state FAILED) ''wf_1'' ''task_1'')) 0)) ''task_2'' =
     Some (snd (tasks (two_task_workflow FAILED) ! 1)) \<and>
   retry_failed_task (two_task_state FAILED) ''wf_1'' ''task_2'' = (False, two_task_state FAILED) \<and>
   retry_failed_task (two_task_state FAILED) ''wf_1'' ''task_3'' = (False, two_task_state FAILED) \<and>
   retry_failed_task (two_task_state FAILED) ''wf_2'' ''task_1'' = (False, two_task_state FAILED)"
proof -
  let ?s = "two_task_state FAILED"
  let ?A = "snd (tasks (two_task_workflow FAILED) ! 0)"
  let ?B = "snd (tasks (two_task_workflow FAILED) ! 1)"
  have known: "map_of (workflows ?s) ''wf_1'' = Some 0"
    and unknown: "map_of (workflows ?s) ''wf_2'' = None"
    and w: "heap ?s 0 = two_task_workflow FAILED"
    by (simp_all add: two_task_state_def fresh_core_def)
  have ts: "map_of (tasks (heap ?s 0)) ''task_1'' = Some ?A"
    "map_of (tasks (heap ?s 0)) ''task_2'' = Some ?B"
    "map_of (tasks (heap ?s 0)) ''task_3'' = None"
    by (simp_all add: w two_task_workflow_def blank_workflow_def)
  have st: "task_status ?A = FAILED" "task_status ?B \<noteq> FAILED"
    by (simp_all add: two_task_workflow_def blank_workflow_def Task_init_def)
  note frame = retry_failed_task_frame [of ?s "''wf_1''", THEN conjunct2, rule_format, OF known]
  from frame [of "''task_1''", THEN conjunct2, rule_format, OF ts(1), THEN conjunct2, rule_format, OF st(1)]
  have r1: "fst (retry_failed_task ?s ''wf_1'' ''task_1'') = True"
    and r2: "map_of (tasks (heap (snd (retry_failed_task ?s ''wf_1'' ''task_1'')) 0)) ''task_1'' =
       Some (?A\<lparr>task_status := PENDING\<rparr>)"
    and r3: "\<forall>k. k \<noteq> ''task_1'' \<longrightarrow>
       map_of (tasks (heap (snd (retry_failed_task ?s ''wf_1'' ''task_1'')) 0)) k =
       map_of (tasks (heap ?s 0)) k"
    unfolding Let_def by blast+
  have r4: "map_of (tasks (heap (snd (retry_failed_task ?s ''wf_1'' ''task_1'')) 0)) ''task_2'' = Some ?B"
    using r3 [rule_format, of "''task_2''"] ts(2) by simp
  have r5: "retry_failed_task ?s ''wf_1'' ''task_2'' = (False, ?s)"
    using frame [of "''task_2''", THEN conjunct2, rule_format, OF ts(2), THEN conjunct1] st(2) by blast
  have r6: "retry_failed_task ?s ''wf_1'' ''task_3'' = (False, ?s)"
    using frame [of "''task_3''", THEN conjunct1] ts(3) by blast
  have r7: "retry_failed_task ?s ''wf_2'' ''task_1'' = (False, ?s)"
    using retry_failed_task_frame [of ?s "''wf_2''" "''task_1''"] unknown by blast
  show ?thesis using known ts(1) st(1) r1 r2 r4 r5 r6 r7 by blast
qed

subsection \<open>Unknown identifiers\<close>

text \<open>
  Claim C8. Given a workflow ID that the planner does not hold, \<^verbatim>\<open>get_workflow\<close>,
  \<^verbatim>\<open>get_workflow_progress\<close> and \<^verbatim>\<open>get_workflow_status\<close> return None, \<^verbatim>\<open>get_next_tasks\<close>
  returns the empty list (it does not raise), and \<^verbatim>\<open>update_task_status\<close>,
  \<^verbatim>\<open>cancel_workflow\<close> and \<^verbatim>\<open>retry_failed_task\<close> return False without changing the
  state. Given an ID without a recorded execution, \<^verbatim>\<open>get_execution\<close> and
  \<^verbatim>\<open>get_workflow_status\<close> return None. Given a known workflow and a task ID it does not
  contain, \<^verbatim>\<open>update_task_status\<close> and \<^verbatim>\<open>retry_failed_task\<close> return False without
  changing the state.
\<close>

theorem unknown_ids_give_sentinels:
  "(map_of (workflows s) wid = None \<longrightarrow>
      get_workflow s wid = None \<and> get_workflow_progress s wid = None \<and>
      get_workflow_status s wid = None \<and> get_next_tasks s wid = Inr [] \<and>
      update_task_status s wid tid st res err = (False, s) \<and>
      cancel_workflow s wid = (False, s) \<and> retry_failed_task s wid tid = (False, s)) \<and>
   (map_of (executions s) wid = None \<longrightarrow>
      get_execution s wid = None \<and> get_workflow_status s wid = None) \<and>
   (\<forall>a. map_of (workflows s) wid = Some a \<and> map_of (tasks (heap s a)) tid = None \<longrightarrow>
      update_task_status s wid tid st res err = (False, s) \<and>
      retry_failed_task s wid tid = (False, s))"
  by (auto simp: get_workflow_def get_workflow_progress_def get_workflow_status_def
        get_next_tasks_def update_task_status_def cancel_workflow_def retry_failed_task_def
        get_execution_def get_task_def split: option.splits)


theorem unknown_ids_give_sentinels_witness:
  "map_of (workflows (two_task_state PENDING)) ''wf_2'' = None \<and>
   get_workflow (two_task_state PENDING) ''wf_2'' = None \<and>
   get_workflow_progress (two_task_state PENDING) ''wf_2'' = None \<and>
   get_workflow_status (two_task_state PENDING) ''wf_2'' = None \<and>
   get_next_tasks (two_task_state PENDING) ''wf_2'' = Inr [] \<and>
   update_task_status (two_task_state PENDING) ''wf_2'' ''task_1'' COMPLETED (Some []) None =
     (False, two_task_state PENDING) \<and>
   cancel_workflow (two_task_state PENDING) ''wf_2'' = (False, two_task_state PENDING) \<and>
   retry_failed_task (two_task_state PENDING) ''wf_2'' ''task_1'' = (False, two_task_state PENDING) \<and>
   map_of (executions (two_task_state PENDING)) ''wf_1'' = None \<and>
   get_execution (two_task_state PENDING) ''wf_1'' = None \<and>
   get_workflow_status (two_task_state PENDING) ''wf_1'' = None \<and>
   map_of (workflows (two_task_state PENDING)) ''wf_1'' = Some 0 \<and>
   map_of (tasks (heap (two_task_state PENDING) 0)) ''task_3'' = None \<and>
   update_task_status (two_task_state PENDING) ''wf_1'' ''task_3'' FAILED None (Some ''e'') =
     (False, two_task_state PENDING) \<and>
   retry_failed_task (two_task_state PENDING) ''wf_1'' ''task_3'' = (False, two_task_state PENDING)"
proof -
  let ?s = "two_task_state PENDING"
  have h: "map_of (workflows ?s) ''wf_2'' = None" "map_of (executions ?s) ''wf_1'' = None"
    "map_of (workflows ?s) ''wf_1'' = Some 0" "map_of (tasks (heap ?s 0)) ''task_3'' = None"
    by (simp_all add: two_task_state_def fresh_core_def two_task_workflow_def blank_workflow_def)
  show ?thesis
    using h unknown_ids_give_sentinels [of ?s "''wf_2''" "''task_1''" COMPLETED "Some []" None]
      unknown_ids_give_sentinels [of ?s "''wf_1''" "''task_3''" FAILED None "Some ''e''"]
    by blast
qed

subsection \<open>Ready tasks\<close>

lemma deps_met_closed:
  "list_all (\<lambda>d. map_of ts d \<noteq> None) ds \<Longrightarrow>
   deps_met ts ds =
     Inr (list_all (\<lambda>d. case map_of ts d of None \<Rightarrow> False | Some dt \<Rightarrow> task_status dt = COMPLETED) ds)"
  by (induction ds) (auto split: option.splits)

lemma collect_ready_closed:
  "list_all (\<lambda>t. list_all (\<lambda>d. map_of ts d \<noteq> None) (dependencies t)) vs \<Longrightarrow>
   collect_ready ts vs =
     Inr (filter (\<lambda>t. (task_status t = PENDING \<or> task_status t = READY) \<and>
            list_all (\<lambda>d. case map_of ts d of None \<Rightarrow> False | Some dt \<Rightarrow> task_status dt = COMPLETED)
              (dependencies t)) vs)"
  by (induction vs) (auto simp: deps_met_closed)

lemma priority_order_inj: "priority_order p = priority_order q \<longleftrightarrow> p = q"
  by (cases p; cases q) simp_all

lemma sorted_key_split:
  fixes f :: "'a \<Rightarrow> nat"
  shows "sorted (map f xs) \<Longrightarrow> xs = filter (\<lambda>x. f x < k) xs @ filter (\<lambda>x. \<not> f x < k) xs"
proof (induction xs)
  case Nil
  show ?case by simp
next
  case (Cons x xs)
  then have le: "\<forall>y \<in> set xs. f x \<le> f y" and s: "sorted (map f xs)"
    by simp_all
  show ?case
  proof (cases "f x < k")
    case True
    with Cons.IH [OF s] show ?thesis by simp
  next
    case False
    with le have "\<forall>y \<in> set xs. \<not> f y < k" by auto
    then have "filter (\<lambda>x. f x < k) xs = []" "filter (\<lambda>x. \<not> f x < k) xs = xs"
      by (simp_all add: filter_empty_conv filter_id_conv)
    with False show ?thesis by simp
  qed
qed

lemma sorted_by_priority:
  assumes "sorted (map (\<lambda>t. priority_order (priority t)) xs)"
  shows "xs = filter (\<lambda>t. priority t = CRITICAL) xs @ filter (\<lambda>t. priority t = HIGH) xs @
              filter (\<lambda>t. priority t = MEDIUM) xs @ filter (\<lambda>t. priority t = LOW) xs"
proof -
  let ?f = "\<lambda>t. priority_order (priority t)"
  have a: "xs = filter (\<lambda>t. ?f t < 1) xs @ filter (\<lambda>t. \<not> ?f t < 1) xs"
    using assms by (rule sorted_key_split)
  let ?r1 = "filter (\<lambda>t. \<not> ?f t < 1) xs"
  have s1: "sorted (map ?f ?r1)" using assms by (rule sorted_filter)
  have b: "?r1 = filter (\<lambda>t. ?f t < 2) ?r1 @ filter (\<lambda>t. \<not> ?f t < 2) ?r1"
    using s1 by (rule sorted_key_split)
  let ?r2 = "filter (\<lambda>t. \<not> ?f t < 2) ?r1"
  have s2: "sorted (map ?f ?r2)" using s1 by (rule sorted_filter)
  have c: "?r2 = filter (\<lambda>t. ?f t < 3) ?r2 @ filter (\<lambda>t. \<not> ?f t < 3) ?r2"
    using s2 by (rule sorted_key_split)
  have e0: "filter (\<lambda>t. ?f t < 1) xs = filter (\<lambda>t. priority t = CRITICAL) xs"
    by (rule filter_cong [OF refl]) (case_tac "priority x"; simp)
  have e1: "filter (\<lambda>t. ?f t < 2) ?r1 = filter (\<lambda>t. priority t = HIGH) xs"
    unfolding filter_filter by (rule filter_cong [OF refl]) (case_tac "priority x"; simp)
  have e2: "filter (\<lambda>t. ?f t < 3) ?r2 = filter (\<lambda>t. priority t = MEDIUM) xs"
    unfolding filter_filter by (rule filter_cong [OF refl]) (case_tac "priority x"; simp)
  have e3: "filter (\<lambda>t. \<not> ?f t < 3) ?r2 = filter (\<lambda>t. priority t = LOW) xs"
    unfolding filter_filter by (rule filter_cong [OF refl]) (case_tac "priority x"; simp)
  from a b c e0 e1 e2 e3 show ?thesis by metis
qed

text \<open>
  Claim C3. On a workflow whose dependency lists only name keys of its task dictionary,
  \<^verbatim>\<open>get_ready_tasks\<close> does not raise. Let the ready tasks be the values of the task
  dictionary, in its order, that are PENDING or READY and have all dependencies COMPLETED.
  The returned list is the CRITICAL ready tasks, followed by the HIGH ones, the MEDIUM
  ones and the LOW ones, each group in the order of the task dictionary. So it holds
  exactly the ready tasks, and no returned task has a dependency that is not COMPLETED.
\<close>

theorem get_ready_tasks_sorted_ready:
  assumes "deps_closed w"
  shows "\<exists>ready. get_ready_tasks w = Inr ready
           \<and> ready = filter (\<lambda>t. priority t = CRITICAL) (filter (ready_per_spec w) (map snd (tasks w)))
                   @ filter (\<lambda>t. priority t = HIGH) (filter (ready_per_spec w) (map snd (tasks w)))
                   @ filter (\<lambda>t. priority t = MEDIUM) (filter (ready_per_spec w) (map snd (tasks w)))
                   @ filter (\<lambda>t. priority t = LOW) (filter (ready_per_spec w) (map snd (tasks w)))
           \<and> set ready = {t \<in> snd ` set (tasks w). ready_per_spec w t}
           \<and> (\<forall>t \<in> set ready. \<forall>d \<in> set (dependencies t).
                 \<exists>dt. map_of (tasks w) d = Some dt \<and> task_status dt = COMPLETED)"
proof -
  let ?vals = "map snd (tasks w)"
  let ?R = "filter (ready_per_spec w) ?vals"
  let ?ready = "sort_key (\<lambda>t. priority_order (priority t)) ?R"
  have P: "ready_per_spec w = (\<lambda>t. (task_status t = PENDING \<or> task_status t = READY) \<and>
            list_all (\<lambda>d. case map_of (tasks w) d of None \<Rightarrow> False | Some dt \<Rightarrow> task_status dt = COMPLETED)
              (dependencies t))"
  proof -
    have dc: "dep_completed w = (\<lambda>d. case map_of (tasks w) d of None \<Rightarrow> False | Some dt \<Rightarrow> task_status dt = COMPLETED)"
      by (rule ext) (simp add: dep_completed_def)
    show ?thesis by (rule ext) (simp only: ready_per_spec_def dc)
  qed
  have "collect_ready (tasks w) ?vals = Inr ?R"
    using assms unfolding deps_closed_def P by (rule collect_ready_closed)
  then have g: "get_ready_tasks w = Inr ?ready"
    by (simp add: get_ready_tasks_def)
  have s: "set ?ready = {t \<in> snd ` set (tasks w). ready_per_spec w t}"
    by auto
  have d: "\<forall>t \<in> set ?ready. \<forall>d \<in> set (dependencies t).
             \<exists>dt. map_of (tasks w) d = Some dt \<and> task_status dt = COMPLETED"
    by (auto simp: ready_per_spec_def dep_completed_def list_all_iff split: option.splits)
  have st: "filter (\<lambda>t. priority t = p) ?ready = filter (\<lambda>t. priority t = p) ?R" for p
  proof -
    have "filter (\<lambda>t. priority_order (priority t) = priority_order p) ?ready =
          filter (\<lambda>t. priority_order (priority t) = priority_order p) ?R"
      by (rule sort_key_stable)
    then show ?thesis
      by (simp only: priority_order_inj)
  qed
  have "sorted (map (\<lambda>t. priority_order (priority t)) ?ready)"
    by (rule sorted_sort_key)
  then have "?ready = filter (\<lambda>t. priority t = CRITICAL) ?ready @ filter (\<lambda>t. priority t = HIGH) ?ready @
              filter (\<lambda>t. priority t = MEDIUM) ?ready @ filter (\<lambda>t. priority t = LOW) ?ready"
    by (rule sorted_by_priority)
  then have o: "?ready = filter (\<lambda>t. priority t = CRITICAL) ?R @ filter (\<lambda>t. priority t = HIGH) ?R @
              filter (\<lambda>t. priority t = MEDIUM) ?R @ filter (\<lambda>t. priority t = LOW) ?R"
    by (simp only: st)
  from g s d o show ?thesis by blast
qed

theorem get_ready_tasks_sorted_ready_witness:
  "deps_closed priority_workflow \<and>
   get_ready_tasks priority_workflow =
     Inr [snd (tasks priority_workflow ! 5), snd (tasks priority_workflow ! 3),
          snd (tasks priority_workflow ! 2), snd (tasks priority_workflow ! 4),
          snd (tasks priority_workflow ! 1)] \<and>
   map priority [snd (tasks priority_workflow ! 5), snd (tasks priority_workflow ! 3),
          snd (tasks priority_workflow ! 2), snd (tasks priority_workflow ! 4),
          snd (tasks priority_workflow ! 1)] = [CRITICAL, HIGH, MEDIUM, MEDIUM, LOW]"
proof -
  have closed: "deps_closed priority_workflow"
    by (simp add: deps_closed_def priority_workflow_def blank_workflow_def Task_init_def)
  have R: "filter (ready_per_spec priority_workflow) (map snd (tasks priority_workflow)) =
      [snd (tasks priority_workflow ! 1), snd (tasks priority_workflow ! 2),
       snd (tasks priority_workflow ! 3), snd (tasks priority_workflow ! 4),
       snd (tasks priority_workflow ! 5)]"
    by (simp add: ready_per_spec_def dep_completed_def priority_workflow_def blank_workflow_def
        Task_init_def)
  have p: "map priority [snd (tasks priority_workflow ! 1), snd (tasks priority_workflow ! 2),
       snd (tasks priority_workflow ! 3), snd (tasks priority_workflow ! 4),
       snd (tasks priority_workflow ! 5)] = [LOW, MEDIUM, HIGH, MEDIUM, CRITICAL]"
    by (simp add: priority_workflow_def blank_workflow_def Task_init_def)
  from get_ready_tasks_sorted_ready [OF closed]
  have "get_ready_tasks priority_workflow =
     Inr [snd (tasks priority_workflow ! 5), snd (tasks priority_workflow ! 3),
          snd (tasks priority_workflow ! 2), snd (tasks priority_workflow ! 4),
          snd (tasks priority_workflow ! 1)]"
    unfolding R using p by simp
  with closed p show ?thesis by simp
qed

subsection \<open>The three execution strategies\<close>

text \<open>The parallel loop and the sequential loop compute the same function; the mode of the
  configuration is read nowhere but in the dispatch on it.\<close>

lemma parallel_loop_eq:
  "execute_parallel_loop orch a s r ex = execute_sequential_loop orch a s r ex"
proof (induction orch a s r ex rule: execute_sequential_loop.induct)
  case (1 orch a s r executed)
  show ?case
    apply (subst execute_parallel_loop.simps)
    apply (subst execute_sequential_loop.simps)
    using 1 by (auto split: sum.splits prod.splits simp: Let_def)
qed

lemma execute_task_mode:
  "execute_task (orch\<lparr>config := (config orch)\<lparr>mode := m\<rparr>\<rparr>) s a task r = execute_task orch s a task r"
proof -
  let ?o = "orch\<lparr>config := (config orch)\<lparr>mode := m\<rparr>\<rparr>"
  have rs: "review_step ?o = review_step orch"
    by (rule ext)+ (auto simp: review_step_def Let_def split: sum.splits)
  have ss: "summarize_step ?o = summarize_step orch"
    by (rule ext)+ (auto simp: summarize_step_def Let_def split: sum.splits)
  show ?thesis unfolding execute_task_def rs ss by simp
qed

lemma execute_ready_mode:
  "execute_ready (orch\<lparr>config := (config orch)\<lparr>mode := m\<rparr>\<rparr>) a ts acc = execute_ready orch a ts acc"
proof (induction ts arbitrary: acc)
  case Nil
  then show ?case by simp
next
  case (Cons t ts)
  then show ?case by (cases acc) (simp add: execute_task_mode split: prod.splits)
qed

lemma sequential_loop_mode:
  "execute_sequential_loop (orch\<lparr>config := (config orch)\<lparr>mode := m\<rparr>\<rparr>) a s r ex =
   execute_sequential_loop orch a s r ex"
proof (induction orch a s r ex rule: execute_sequential_loop.induct)
  case (1 orch a s r executed)
  show ?case
    apply (subst execute_sequential_loop.simps [of orch a s r executed])
    apply (subst execute_sequential_loop.simps [of "orch\<lparr>config := (config orch)\<lparr>mode := m\<rparr>\<rparr>" a s r executed])
    using 1 by (auto split: sum.splits prod.splits simp: Let_def execute_ready_mode)
qed

text \<open>
  Claim C6. For every orchestrator, state, workflow reference and ExecutionResult,
  \<^verbatim>\<open>_execute_parallel\<close> and \<^verbatim>\<open>_execute_hybrid\<close> return what \<^verbatim>\<open>_execute_sequential\<close>
  returns: the same outcome (normal return or the same exception), the same final state
  (which includes every workflow and the order in which tasks were dispatched) and the
  same ExecutionResult. Hence \<^verbatim>\<open>_execute_workflow_tasks\<close> returns the same result and final
  state under every mode.
\<close>

theorem strategies_coincide:
  "execute_parallel orch s a r = execute_sequential orch s a r \<and>
   execute_hybrid orch s a r = execute_sequential orch s a r \<and>
   run_strategy orch s a r = execute_sequential orch s a r \<and>
   execute_workflow_tasks (orch\<lparr>config := (config orch)\<lparr>mode := m\<rparr>\<rparr>) s a =
     execute_workflow_tasks orch s a"
proof -
  have p: "execute_parallel orch s a r = execute_sequential orch s a r" for orch s a r
    by (simp add: execute_parallel_def execute_sequential_def parallel_loop_eq)
  have h: "execute_hybrid orch s a r = execute_sequential orch s a r" for orch s a r
    by (simp add: execute_hybrid_def)
  have r: "run_strategy orch s a r = execute_sequential orch s a r" for orch s a r
    by (simp add: run_strategy_def p h)
  have rm: "run_strategy (orch\<lparr>config := (config orch)\<lparr>mode := m\<rparr>\<rparr>) s a r = run_strategy orch s a r"
    for s r
    by (simp add: r execute_sequential_def sequential_loop_mode)
  have "execute_workflow_tasks (orch\<lparr>config := (config orch)\<lparr>mode := m\<rparr>\<rparr>) s a =
     execute_workflow_tasks orch s a"
    unfolding execute_workflow_tasks_def rm by (rule refl)
  with p h r show ?thesis by blast
qed

text \<open>The two-task workflow run under PARALLEL and under HYBRID.\<close>

theorem strategies_coincide_witness:
  "dispatch_log (snd (execute_workflow_tasks
       ((example_orchestrator False)\<lparr>config := default_config\<lparr>mode := PARALLEL\<rparr>\<rparr>)
       (two_task_state PENDING) 0)) = [''task_1'', ''task_2''] \<and>
   execute_workflow_tasks ((example_orchestrator False)\<lparr>config := default_config\<lparr>mode := HYBRID\<rparr>\<rparr>)
       (two_task_state PENDING) 0 =
   execute_workflow_tasks ((example_orchestrator False)\<lparr>config := default_config\<lparr>mode := PARALLEL\<rparr>\<rparr>)
       (two_task_state PENDING) 0"
proof -
  have c: "config (example_orchestrator False) = default_config"
    by (simp add: example_orchestrator_def)
  have "dispatch_log (snd (execute_workflow_tasks (example_orchestrator False) (two_task_state PENDING) 0))
          = [''task_1'', ''task_2'']"
    by code_simp
  then show ?thesis
    using strategies_coincide [where orch = "example_orchestrator False" and m = PARALLEL
                                 and s = "two_task_state PENDING" and a = 0]
      strategies_coincide [where orch = "example_orchestrator False" and m = HYBRID
                                 and s = "two_task_state PENDING" and a = 0]
    by (simp add: c)
qed

subsection \<open>What a run does to the state\<close>














































subsection \<open>Planning a daily briefing\<close>

text \<open>The goal contains \<^verbatim>\<open>briefing\<close> and \<^verbatim>\<open>create\<close>, so two templates contribute.\<close>

lemma briefing_goal_lower: "py_lower ''Create a daily briefing'' = ''create a daily briefing''"
  by (simp add: py_lower_def lower_char_def)
lemma briefing_goal_words: "any_word_in [''briefing'', ''summary'', ''report''] ''create a daily briefing''"
  "\<not> any_word_in [''analyze'', ''analysis'', ''examine''] ''create a daily briefing''"
  "\<not> any_word_in [''search'', ''find'', ''retrieve'', ''query''] ''create a daily briefing''"
  "any_word_in [''generate'', ''create'', ''write''] ''create a daily briefing''"
  "\<not> any_word_in [''update'', ''refresh'', ''sync''] ''create a daily briefing''"
  by (simp_all add: any_word_in_def)
lemma decompose_briefing_goal: "decompose_goal s ''Create a daily briefing'' d c = (let (a, s1) = create_briefing_tasks s; (b, s2) = create_generation_tasks s1 in (a @ b, s2))"
  by (simp add: decompose_goal_def briefing_goal_lower briefing_goal_words extend_if_def create_briefing_tasks_def create_generation_tasks_def split: prod.splits)
lemma new_task_eq: "new_task s n d ob ac ps pr du =
  (Task_init (''task_'' @ str_nat (Suc (task_counter s))) n d ob ac ps pr du (clock s (clock_reads s)),
   s\<lparr>task_counter := Suc (task_counter s), clock_reads := Suc (clock_reads s)\<rparr>)"
  by (simp add: new_task_def next_task_id_def datetime_now_def)
lemma str_nat_nonempty: "str_nat n \<noteq> []"
  by (subst str_nat.simps) simp

lemma digit_char_inj:
  "i < 10 \<Longrightarrow> j < 10 \<Longrightarrow> (''0123456789'' ! i = ''0123456789'' ! j) = (i = j)"
  by (rule nth_eq_iff_index_eq) simp_all

lemma str_nat_inj: "str_nat a = str_nat b \<Longrightarrow> a = b"
proof (induction a arbitrary: b rule: str_nat.induct)
  case (1 a)
  show ?case
  proof (cases "a < 10")
    case a: True
    show ?thesis
    proof (cases "b < 10")
      case True
      with a "1.prems" show ?thesis
        by (simp add: str_nat.simps [of a] str_nat.simps [of b] digit_char_inj)
    next
      case False
      with a "1.prems" str_nat_nonempty [of "b div 10"] show ?thesis
        by (simp add: str_nat.simps [of a] str_nat.simps [of b] Cons_eq_append_conv)
    qed
  next
    case a: False
    show ?thesis
    proof (cases "b < 10")
      case True
      with a "1.prems" str_nat_nonempty [of "a div 10"] show ?thesis
        by (simp add: str_nat.simps [of a] str_nat.simps [of b] append_eq_Cons_conv)
    next
      case False
      with a "1.prems" have e: "str_nat (a div 10) = str_nat (b div 10)"
        and m: "''0123456789'' ! (a mod 10) = ''0123456789'' ! (b mod 10)"
        by (simp_all add: str_nat.simps [of a] str_nat.simps [of b])
      from "1.IH" [OF a e] have d: "a div 10 = b div 10" .
      from m have "a mod 10 = b mod 10" by (simp add: digit_char_inj)
      with d show ?thesis by (metis div_mult_mod_eq)
    qed
  qed
qed

lemma str_nat_eq_iff [simp]: "str_nat a = str_nat b \<longleftrightarrow> a = b"
  using str_nat_inj by blast

lemma Task_init_sel:
  "task_id (Task_init tid n d ob ac ps pr du now) = tid"
  "action (Task_init tid n d ob ac ps pr du now) = ac"
  "dependencies (Task_init tid n d ob ac ps pr du now) = []"
  "estimated_duration_seconds (Task_init tid n d ob ac ps pr du now) = du"
  by (simp_all add: Task_init_def)

lemma plan_briefing:
  "plan_workflow s ''Create a daily briefing'' d c =
    (next_addr s,
     s\<lparr>task_counter := task_counter s + 7,
       clock_reads := clock_reads s + 9,
       heap :=
         (heap s)
         (next_addr s :=
            \<lparr>wf_id = ''workflow_'' @ stamp (clock s (clock_reads s)) @ ''_'' @
                       str_nat (Suc (length (workflows s))),
             goal = ''Create a daily briefing'', wf_description = d,
             tasks =
               [(''task_'' @ str_nat (task_counter s + 1),
                 Task_init (''task_'' @ str_nat (task_counter s + 1)) ''Retrieve Documents''
                  ''Fetch relevant documents and chunks''
                  ''Gather source material for briefing'' ''query_docs''
                  [(''query_type'', PStr ''broad''), (''limit'', PInt 20)] HIGH 10
                  (clock s (clock_reads s + 2))),
                (''task_'' @ str_nat (task_counter s + 2),
                 Task_init (''task_'' @ str_nat (task_counter s + 2)) ''Extract Key Points''
                  ''Identify and extract key information'' ''Distill content into main points''
                  ''extract_key_points''
                  [(''method'', PStr ''semantic''), (''max_points'', PInt 10)] HIGH 15
                  (clock s (clock_reads s + 3))),
                (''task_'' @ str_nat (task_counter s + 3),
                 (Task_init (''task_'' @ str_nat (task_counter s + 3)) ''Synthesize Summary''
                  ''Generate comprehensive summary''
                  ''Create cohesive briefing text'' ''synthesize''
                  [(''style'', PStr ''professional''), (''length'', PStr ''medium'')] HIGH 20
                  (clock s (clock_reads s + 4)))
                 \<lparr>dependencies := [''task_'' @ str_nat (task_counter s + 2),
                                   ''task_'' @ str_nat (task_counter s + 5)]\<rparr>),
                (''task_'' @ str_nat (task_counter s + 4),
                 (Task_init (''task_'' @ str_nat (task_counter s + 4)) ''Format Output''
                  ''Structure briefing for presentation''
                  ''Prepare formatted briefing'' ''format'' [(''format'', PStr ''markdown'')]
                  MEDIUM 10 (clock s (clock_reads s + 5)))
                 \<lparr>dependencies := [''task_'' @ str_nat (task_counter s + 1)]\<rparr>),
                (''task_'' @ str_nat (task_counter s + 5),
                 Task_init (''task_'' @ str_nat (task_counter s + 5)) ''Plan Content''
                  ''Outline content structure''
                  ''Create content plan'' ''plan''
                  [(''elements'', PList [PStr ''intro'', PStr ''body'', PStr ''conclusion''])]
                  HIGH 10 (clock s (clock_reads s + 6))),
                (''task_'' @ str_nat (task_counter s + 6),
                 (Task_init (''task_'' @ str_nat (task_counter s + 6)) ''Generate Content''
                  ''Create content using LLM''
                  ''Produce text content'' ''synthesize''
                  [(''style'', PStr ''professional''), (''include_examples'', PBool True)] HIGH
                  20 (clock s (clock_reads s + 7)))
                 \<lparr>dependencies := [''task_'' @ str_nat (task_counter s + 2),
                                   ''task_'' @ str_nat (task_counter s + 5)]\<rparr>),
                (''task_'' @ str_nat (task_counter s + 7),
                 Task_init (''task_'' @ str_nat (task_counter s + 7)) ''Review Content''
                  ''QA and refinement''
                  ''Ensure quality output'' ''review'' [(''check_quality'', PBool True)] MEDIUM
                  15 (clock s (clock_reads s + 8)))],
             task_order =
               [''task_'' @ str_nat (task_counter s + 1), ''task_'' @ str_nat (task_counter s + 2),
                ''task_'' @ str_nat (task_counter s + 3), ''task_'' @ str_nat (task_counter s + 4),
                ''task_'' @ str_nat (task_counter s + 5), ''task_'' @ str_nat (task_counter s + 6),
                ''task_'' @ str_nat (task_counter s + 7)],
             wf_status = ''ready'', wf_created_at = clock s (clock_reads s + 1),
             wf_started_at = None, wf_completed_at = None, estimated_total_duration = 100,
             actual_duration = None,
             metadata = [(''initial_context'', PDict (case c of None \<Rightarrow> [] | Some c \<Rightarrow> c))]\<rparr>),
       next_addr := Suc (next_addr s),
       workflows :=
         AList.update
          (''workflow_'' @ stamp (clock s (clock_reads s)) @ ''_'' @
             str_nat (Suc (length (workflows s))))
          (next_addr s) (workflows s)\<rparr>)"
proof -
  have n: "k + 9 = Suc (Suc (Suc (Suc (Suc (Suc (Suc (Suc (Suc k))))))))"
    "k + 8 = Suc (Suc (Suc (Suc (Suc (Suc (Suc (Suc k)))))))"
    "k + 7 = Suc (Suc (Suc (Suc (Suc (Suc (Suc k))))))"
    "k + 6 = Suc (Suc (Suc (Suc (Suc (Suc k)))))"
    "k + 5 = Suc (Suc (Suc (Suc (Suc k))))"
    "k + 4 = Suc (Suc (Suc (Suc k)))"
    "k + 3 = Suc (Suc (Suc k))"
    "k + 2 = Suc (Suc k)"
    "k + 1 = Suc k" for k :: nat
    by simp_all
  show ?thesis
    unfolding n
    apply (simp add: plan_workflow_def generate_workflow_id_def datetime_now_def
             decompose_briefing_goal create_briefing_tasks_def create_generation_tasks_def
             new_task_eq Task_init_sel split: prod.splits)
    apply (simp add: resolve_dependencies_def action_sequences_def add_dependents_def
             calculate_duration_def Let_def Task_init_sel)
    done
qed

lemma str_nat_upto_14:
  "str_nat 1 = ''1''" "str_nat 2 = ''2''" "str_nat 3 = ''3''" "str_nat 4 = ''4''"
  "str_nat 5 = ''5''" "str_nat 6 = ''6''" "str_nat 7 = ''7''" "str_nat 8 = ''8''"
  "str_nat 9 = ''9''" "str_nat 10 = ''10''" "str_nat 11 = ''11''" "str_nat 12 = ''12''"
  "str_nat 13 = ''13''" "str_nat 14 = ''14''"
  "str_nat (Suc 0) = ''1''" "str_nat (Suc (Suc 0)) = ''2''"
  by (simp_all add: str_nat.simps)

text \<open>
  Claim C1, as the code has it. For the goal \<^verbatim>\<open>"Create a daily briefing"\<close>, whatever the
  state of the planner, \<^verbatim>\<open>plan_workflow\<close> returns a workflow of seven tasks: the goal
  contains \<^verbatim>\<open>briefing\<close> and \<^verbatim>\<open>create\<close>, so the briefing template is followed by the
  generation template. With \<open>n\<close> the planner's task counter before the call, the tasks are
  \<^verbatim>\<open>task_\<close>\<open>(n+1)\<close> to \<^verbatim>\<open>task_\<close>\<open>(n+7)\<close>, with the actions \<^verbatim>\<open>query_docs\<close>, \<^verbatim>\<open>extract_key_points\<close>,
  \<^verbatim>\<open>synthesize\<close>, \<^verbatim>\<open>format\<close>, \<^verbatim>\<open>plan\<close>, \<^verbatim>\<open>synthesize\<close>, \<^verbatim>\<open>review\<close> in this order. The \<^verbatim>\<open>format\<close>
  task depends on the \<^verbatim>\<open>query_docs\<close> task; each \<^verbatim>\<open>synthesize\<close> task depends on the
  \<^verbatim>\<open>extract_key_points\<close> task and on the \<^verbatim>\<open>plan\<close> task; the \<^verbatim>\<open>query_docs\<close>,
  \<^verbatim>\<open>extract_key_points\<close> and \<^verbatim>\<open>plan\<close> tasks have no dependency. The dependencies of the
  \<^verbatim>\<open>review\<close> task are left open. The estimated total duration is
  10 + 15 + 20 + 10 + 10 + 20 + 15 = 100, and the workflow's status is \<^verbatim>\<open>ready\<close>.
\<close>

theorem plan_daily_briefing:
  "let a = fst (plan_workflow s ''Create a daily briefing'' d c);
       w = heap (snd (plan_workflow s ''Create a daily briefing'' d c)) a;
       tid = (\<lambda>i. ''task_'' @ str_nat (task_counter s + i))
   in map (\<lambda>(k, t). (k, task_id t, action t, estimated_duration_seconds t)) (tasks w) =
        [(tid 1, tid 1, ''query_docs'', 10),
         (tid 2, tid 2, ''extract_key_points'', 15),
         (tid 3, tid 3, ''synthesize'', 20),
         (tid 4, tid 4, ''format'', 10),
         (tid 5, tid 5, ''plan'', 10),
         (tid 6, tid 6, ''synthesize'', 20),
         (tid 7, tid 7, ''review'', 15)]
      \<and> map (\<lambda>(k, t). dependencies t) (take 6 (tasks w)) =
        [[], [], [tid 2, tid 5], [tid 1], [], [tid 2, tid 5]]
      \<and> task_order w = [tid 1, tid 2, tid 3, tid 4, tid 5, tid 6, tid 7]
      \<and> estimated_total_duration w = 100
      \<and> wf_status w = ''ready''"
  by (simp add: plan_briefing Task_init_sel)

theorem plan_daily_briefing_witness:
  "map (\<lambda>(k, t). (k, action t)) (tasks scenario_A) =
     [(''task_1'', ''query_docs''), (''task_2'', ''extract_key_points''),
      (''task_3'', ''synthesize''), (''task_4'', ''format''), (''task_5'', ''plan''),
      (''task_6'', ''synthesize''), (''task_7'', ''review'')] \<and>
   map (\<lambda>(k, t). dependencies t) (take 6 (tasks scenario_A)) =
     [[], [], [''task_2'', ''task_5''], [''task_1''], [], [''task_2'', ''task_5'']] \<and>
   estimated_total_duration scenario_A = 100 \<and>
   map (\<lambda>(k, t). (k, action t)) (tasks second_briefing) =
     [(''task_8'', ''query_docs''), (''task_9'', ''extract_key_points''),
      (''task_10'', ''synthesize''), (''task_11'', ''format''), (''task_12'', ''plan''),
      (''task_13'', ''synthesize''), (''task_14'', ''review'')] \<and>
   map (\<lambda>(k, t). dependencies t) (take 6 (tasks second_briefing)) =
     [[], [], [''task_9'', ''task_12''], [''task_8''], [], [''task_9'', ''task_12'']] \<and>
   estimated_total_duration second_briefing = 100"
proof -
  let ?s0 = "fresh_core example_clock"
  let ?p = "plan_workflow ?s0 ''Create a daily briefing''
              ''Generate executive summary of new documents'' None"
  let ?s1 = "snd ?p"
  let ?q = "plan_workflow ?s1 ''Create a daily briefing'' ''Another briefing'' None"
  have c0: "task_counter ?s0 = 0" by (simp add: fresh_core_def)
  have c1: "task_counter ?s1 = 7" by (simp add: plan_briefing c0)
  have w: "scenario_A = heap (snd ?p) (fst ?p)"
    by (simp add: scenario_A_def case_prod_unfold)
  have w2: "second_briefing = heap (snd ?q) (fst ?q)"
    by (simp add: second_briefing_def case_prod_unfold)
  have proj: "map (\<lambda>(k, t). (k, action t)) ts =
      map (\<lambda>(k, tid, ac, du). (k, ac))
        (map (\<lambda>(k, t). (k, task_id t, action t, estimated_duration_seconds t)) ts)" for ts :: "(string \<times> Task) list"
    by (simp add: case_prod_unfold comp_def)
  from plan_daily_briefing [of ?s0 "''Generate executive summary of new documents''" None]
  have a: "map (\<lambda>(k, t). (k, task_id t, action t, estimated_duration_seconds t)) (tasks scenario_A) =
        [(''task_1'', ''task_1'', ''query_docs'', 10),
         (''task_2'', ''task_2'', ''extract_key_points'', 15),
         (''task_3'', ''task_3'', ''synthesize'', 20),
         (''task_4'', ''task_4'', ''format'', 10),
         (''task_5'', ''task_5'', ''plan'', 10),
         (''task_6'', ''task_6'', ''synthesize'', 20),
         (''task_7'', ''task_7'', ''review'', 15)]"
    and b: "map (\<lambda>(k, t). dependencies t) (take 6 (tasks scenario_A)) =
     [[], [], [''task_2'', ''task_5''], [''task_1''], [], [''task_2'', ''task_5'']]"
    and d: "estimated_total_duration scenario_A = 100"
    unfolding Let_def w [symmetric] c0 by (simp_all add: str_nat_upto_14)
  from plan_daily_briefing [of ?s1 "''Another briefing''" None]
  have a2: "map (\<lambda>(k, t). (k, task_id t, action t, estimated_duration_seconds t)) (tasks second_briefing) =
        [(''task_8'', ''task_8'', ''query_docs'', 10),
         (''task_9'', ''task_9'', ''extract_key_points'', 15),
         (''task_10'', ''task_10'', ''synthesize'', 20),
         (''task_11'', ''task_11'', ''format'', 10),
         (''task_12'', ''task_12'', ''plan'', 10),
         (''task_13'', ''task_13'', ''synthesize'', 20),
         (''task_14'', ''task_14'', ''review'', 15)]"
    and b2: "map (\<lambda>(k, t). dependencies t) (take 6 (tasks second_briefing)) =
     [[], [], [''task_9'', ''task_12''], [''task_8''], [], [''task_9'', ''task_12'']]"
    and d2: "estimated_total_duration second_briefing = 100"
    unfolding Let_def w2 [symmetric] c1 by (simp_all add: str_nat_upto_14)
  have "map (\<lambda>(k, t). (k, action t)) (tasks scenario_A) =
     [(''task_1'', ''query_docs''), (''task_2'', ''extract_key_points''),
      (''task_3'', ''synthesize''), (''task_4'', ''format''), (''task_5'', ''plan''),
      (''task_6'', ''synthesize''), (''task_7'', ''review'')]"
    unfolding proj a by simp
  moreover have "map (\<lambda>(k, t). (k, action t)) (tasks second_briefing) =
     [(''task_8'', ''query_docs''), (''task_9'', ''extract_key_points''),
      (''task_10'', ''synthesize''), (''task_11'', ''format''), (''task_12'', ''plan''),
      (''task_13'', ''synthesize''), (''task_14'', ''review'')]"
    unfolding proj a2 by simp
  ultimately show ?thesis using b d b2 d2 by simp
qed

text \<open>The claim as it was stated (four tasks, duration 55, \<^verbatim>\<open>extract_key_points\<close> depending
  on \<^verbatim>\<open>query_docs\<close>) fails on the newly constructed planner.\<close>

theorem plan_daily_briefing_counterexample:
  "length (tasks scenario_A) \<noteq> 4 \<and>
   map (\<lambda>(k, t). action t) (tasks scenario_A) \<noteq>
     [''query_docs'', ''extract_key_points'', ''synthesize'', ''format''] \<and>
   estimated_total_duration scenario_A \<noteq> 55 \<and>
   \<not> (\<exists>t \<in> snd ` set (tasks scenario_A).
         action t = ''extract_key_points'' \<and> dependencies t \<noteq> [])"
  by (simp add: scenario_A_def plan_briefing Task_init_sel)

subsection \<open>The lifecycle fields of a workflow\<close>










end
